theory Spec2Isabelle
  imports Complex_Main "HOL-Library.Log_Nat"
begin

section \<open>Values\<close>

text \<open>
  An \<open>xid.ID\<close> is represented by its text form, the string that \<open>id.String()\<close> returns
  and that stands under the key \<open>ID\<close> in the JSON encoding of a task message.
\<close>

type_synonym xid = string

text \<open>
  A \<open>float64\<close> that can be the score of a sorted-set member: a finite value, given as the
  real number it denotes, or an infinity. The store refuses NaN as a score.
\<close>

datatype float64 = NegInf | Finite real | PosInf

instantiation float64 :: linorder
begin

fun less_eq_float64 :: "float64 \<Rightarrow> float64 \<Rightarrow> bool" where
  "less_eq_float64 NegInf y = True"
| "less_eq_float64 (Finite a) NegInf = False"
| "less_eq_float64 (Finite a) (Finite b) = (a \<le> b)"
| "less_eq_float64 (Finite a) PosInf = True"
| "less_eq_float64 PosInf NegInf = False"
| "less_eq_float64 PosInf (Finite b) = False"
| "less_eq_float64 PosInf PosInf = True"

definition less_float64 :: "float64 \<Rightarrow> float64 \<Rightarrow> bool" where
  "less_float64 x y = (x \<le> y \<and> \<not> y \<le> x)"

instance
proof
  fix x y z :: float64
  show "(x < y) = (x \<le> y \<and> \<not> y \<le> x)"
    by (simp add: less_float64_def)
  show "x \<le> x"
    by (cases x) simp_all
  show "x \<le> y \<Longrightarrow> y \<le> z \<Longrightarrow> x \<le> z"
    by (cases x; cases y; cases z) simp_all
  show "x \<le> y \<Longrightarrow> y \<le> x \<Longrightarrow> x = y"
    by (cases x; cases y) simp_all
  show "x \<le> y \<or> y \<le> x"
    by (cases x; cases y) auto
qed

end

text \<open>\<open>time.Unix(sec, nsec)\<close>: an instant, as seconds and nanoseconds since the epoch.\<close>

datatype Time = Unix int int

definition UnixNano :: "Time \<Rightarrow> int" where
  "UnixNano t = (case t of Unix sec nsec \<Rightarrow> sec * 1000000000 + nsec)"

text \<open>\<open>time.Now()\<close> when the wall clock reads \<open>ns\<close> nanoseconds since the epoch.\<close>

definition Now :: "int \<Rightarrow> Time" where
  "Now ns = Unix (ns div 1000000000) (ns mod 1000000000)"

text \<open>
  The conversion \<open>int64(f)\<close> of a \<open>float64\<close>: the fraction is dropped (rounding towards
  zero) when the result fits 64 signed bits. Otherwise Go leaves the result to the
  implementation, which is the parameter \<open>impl\<close>.
\<close>

definition trunc :: "real \<Rightarrow> int" where
  "trunc x = (if 0 \<le> x then \<lfloor>x\<rfloor> else \<lceil>x\<rceil>)"

definition int64_of_float64 :: "(float64 \<Rightarrow> int) \<Rightarrow> float64 \<Rightarrow> int" where
  "int64_of_float64 impl f =
     (case f of
        Finite x \<Rightarrow>
          if - (2 ^ 63) \<le> trunc x \<and> trunc x < 2 ^ 63 then trunc x else impl f
      | _ \<Rightarrow> impl f)"

text \<open>
  The conversion \<open>float64(n)\<close> of an \<open>int64\<close>: exact up to 53 bits, and rounded to the
  nearest value with a 53-bit significand, ties to the even one, beyond.
\<close>

definition float64_of_int64 :: "int \<Rightarrow> float64" where
  "float64_of_int64 n =
     (let a = \<bar>n\<bar> in
      if a < 2 ^ 53 then Finite (of_int n)
      else
        let k = floorlog 2 (nat a) - 53;
            q = a div 2 ^ k;
            rm = a mod 2 ^ k;
            h = 2 ^ (k - 1);
            q' = (if h < rm \<or> (rm = h \<and> odd q) then q + 1 else q)
        in Finite (of_int (sgn n * q' * 2 ^ k)))"

section \<open>Task messages and their views\<close>

text \<open>
  \<open>base.TaskMessage\<close>: the fields this file reads. \<open>Payload\<close> is a
  \<open>map[string]interface{}\<close> that is only passed on, so its type is left open.
\<close>

record 'p TaskMessage =
  ID :: xid
  Type :: string
  Payload :: 'p
  Retry :: int
  Retried :: int
  ErrorMsg :: string

record Stats =
  Enqueued :: int
  InProgress :: int
  Scheduled :: int
  Retry :: int
  Dead :: int
  Timestamp :: Time

record 'p EnqueuedTask =
  ID :: xid
  Type :: string
  Payload :: 'p

record 'p InProgressTask =
  ID :: xid
  Type :: string
  Payload :: 'p

record 'p ScheduledTask =
  ID :: xid
  Type :: string
  Payload :: 'p
  ProcessAt :: Time
  Score :: int

record 'p RetryTask =
  ID :: xid
  Type :: string
  Payload :: 'p
  ProcessAt :: Time
  ErrorMsg :: string
  Retried :: int
  Retry :: int
  Score :: int

record 'p DeadTask =
  ID :: xid
  Type :: string
  Payload :: 'p
  LastFailedAt :: Time
  ErrorMsg :: string
  Score :: int

datatype error =
    ErrTaskNotFound
  | RedisError string
  | ScriptError string
  | UnmarshalError string
  | CastError

section \<open>The store\<close>

text \<open>
  The five keys of package \<open>base\<close>: two lists and three sorted sets. A sorted set is
  given by its entries (member and score) in the store's own order, the order in which
  a range query returns them.
\<close>

type_synonym zset = "(string \<times> float64) list"

datatype lkey = DefaultQueue | InProgressQueue

datatype zkey = ScheduledQueue | RetryQueue | DeadQueue

text \<open>
  What \<open>r *RDB\<close> reaches through \<open>r.client\<close>: the contents of the keys, the text that
  \<open>INFO\<close> reports, and the state of the connection (\<open>Some e\<close>: every command fails with
  the error \<open>e\<close> and has no effect). \<open>clock\<close> is the wall clock, in nanoseconds since
  the epoch, when a call starts.
\<close>

record RDB =
  lists :: "lkey \<Rightarrow> string list"
  zsets :: "zkey \<Rightarrow> zset"
  info_text :: string
  transport_error :: "string option"
  clock :: int

text \<open>
  The store keeps the members of a sorted set distinct and its entries in ascending
  order of score (members of equal score in the order of their bytes, on which nothing
  here depends).
\<close>

definition zset_ok :: "zset \<Rightarrow> bool" where
  "zset_ok z = (distinct (map fst z) \<and> sorted (map snd z))"

subsection \<open>Commands\<close>

text \<open>The elements from index \<open>start\<close> to \<open>stop\<close>, both inclusive, negative indices
  counting from the end: the rule of \<open>LRANGE\<close> and \<open>ZRANGE\<close>.\<close>

definition range_idx :: "'a list \<Rightarrow> int \<Rightarrow> int \<Rightarrow> 'a list" where
  "range_idx xs start stop =
     (let n = int (length xs);
          s0 = (if start < 0 then n + start else start);
          e0 = (if stop < 0 then n + stop else stop);
          s = (if s0 < 0 then 0 else s0)
      in if e0 < s \<or> n \<le> s then []
         else let e = (if n \<le> e0 then n - 1 else e0)
              in take (nat (e - s + 1)) (drop (nat s) xs))"

definition LLEN :: "lkey \<Rightarrow> RDB \<Rightarrow> int" where
  "LLEN k r = int (length (lists r k))"

definition LRANGE :: "lkey \<Rightarrow> int \<Rightarrow> int \<Rightarrow> RDB \<Rightarrow> string list" where
  "LRANGE k start stop r = range_idx (lists r k) start stop"

definition LPUSH :: "lkey \<Rightarrow> string \<Rightarrow> RDB \<Rightarrow> RDB" where
  "LPUSH k v r = r\<lparr>lists := (lists r)(k := v # lists r k)\<rparr>"

definition ZCARD :: "zkey \<Rightarrow> RDB \<Rightarrow> int" where
  "ZCARD k r = int (length (zsets r k))"

definition ZRANGE_WITHSCORES :: "zkey \<Rightarrow> int \<Rightarrow> int \<Rightarrow> RDB \<Rightarrow> (string \<times> float64) list" where
  "ZRANGE_WITHSCORES k start stop r = range_idx (zsets r k) start stop"

definition ZRANGE :: "zkey \<Rightarrow> int \<Rightarrow> int \<Rightarrow> RDB \<Rightarrow> string list" where
  "ZRANGE k start stop r = map fst (range_idx (zsets r k) start stop)"

definition ZRANGEBYSCORE :: "zkey \<Rightarrow> float64 \<Rightarrow> float64 \<Rightarrow> RDB \<Rightarrow> string list" where
  "ZRANGEBYSCORE k lo hi r = map fst (filter (\<lambda>(m, s). lo \<le> s \<and> s \<le> hi) (zsets r k))"

definition ZREM :: "zkey \<Rightarrow> string \<Rightarrow> RDB \<Rightarrow> RDB" where
  "ZREM k m r = r\<lparr>zsets := (zsets r)(k := filter (\<lambda>(m', s). m' \<noteq> m) (zsets r k))\<rparr>"

text \<open>A pipeline: the queued commands, which \<open>Exec\<close> sends and answers together.\<close>

datatype cmd = LLen lkey | ZCard zkey

definition run_cmd :: "RDB \<Rightarrow> cmd \<Rightarrow> int" where
  "run_cmd r c = (case c of LLen k \<Rightarrow> LLEN k r | ZCard k \<Rightarrow> ZCARD k r)"

definition Exec :: "cmd list \<Rightarrow> RDB \<Rightarrow> error + int list" where
  "Exec pipe r =
     (case transport_error r of
        Some e \<Rightarrow> Inl (RedisError e)
      | None \<Rightarrow> Inr (map (run_cmd r) pipe))"

subsection \<open>The client\<close>

text \<open>
  The calls on \<open>r.client\<close> with their \<open>Result()\<close>: the reply of the command, or the
  error of the connection. The member of a \<open>redis.Z\<close> is an \<open>interface{}\<close>; the client
  fills it with the string read from the store.
\<close>

datatype member = MString string | MOther

record Z =
  Score :: float64
  Member :: member

definition LRange :: "lkey \<Rightarrow> int \<Rightarrow> int \<Rightarrow> RDB \<Rightarrow> error + string list" where
  "LRange k start stop r =
     (case transport_error r of
        Some e \<Rightarrow> Inl (RedisError e)
      | None \<Rightarrow> Inr (LRANGE k start stop r))"

definition ZRangeWithScores :: "zkey \<Rightarrow> int \<Rightarrow> int \<Rightarrow> RDB \<Rightarrow> error + Z list" where
  "ZRangeWithScores k start stop r =
     (case transport_error r of
        Some e \<Rightarrow> Inl (RedisError e)
      | None \<Rightarrow>
          Inr (map (\<lambda>(m, s). \<lparr>Z.Score = s, Z.Member = MString m\<rparr>)
                 (ZRANGE_WITHSCORES k start stop r)))"


definition Del :: "zkey \<Rightarrow> RDB \<Rightarrow> error option \<times> RDB" where
  "Del k r =
     (case transport_error r of
        Some e \<Rightarrow> (Some (RedisError e), r)
      | None \<Rightarrow> (None, r\<lparr>zsets := (zsets r)(k := [])\<rparr>))"

section \<open>Stats and info\<close>

text \<open>
  \<open>CurrentStats\<close>: the five commands are queued in one pipeline and sent by one
  \<open>Exec\<close>; \<open>time.Now()\<close> is read after it has returned, \<open>elapsed\<close> nanoseconds after the
  call started.
\<close>

definition CurrentStats :: "nat \<Rightarrow> RDB \<Rightarrow> error + Stats" where
  "CurrentStats elapsed r =
     (case Exec [LLen DefaultQueue, LLen InProgressQueue,
                 ZCard ScheduledQueue, ZCard RetryQueue, ZCard DeadQueue] r of
        Inl err \<Rightarrow> Inl err
      | Inr vals \<Rightarrow>
          Inr \<lparr>Enqueued = vals ! 0, InProgress = vals ! 1, Scheduled = vals ! 2,
               Stats.Retry = vals ! 3, Dead = vals ! 4,
               Timestamp = Now (clock r + int elapsed)\<rparr>)"







section \<open>Listings\<close>

text \<open>
  \<open>json.Unmarshal\<close> into a \<open>base.TaskMessage\<close> is the parameter \<open>U\<close> of each listing:
  the message, or the text of the error.
\<close>

type_synonym 'p unmarshal = "string \<Rightarrow> string + 'p TaskMessage"

fun ListEnqueued_loop ::
  "'p unmarshal \<Rightarrow> 'p EnqueuedTask list \<Rightarrow> string list \<Rightarrow> error + 'p EnqueuedTask list" where
  "ListEnqueued_loop U tasks [] = Inr tasks"
| "ListEnqueued_loop U tasks (s # data) =
     (case U s of
        Inl err \<Rightarrow> Inl (UnmarshalError err)
      | Inr msg \<Rightarrow>
          ListEnqueued_loop U
            (tasks @ [\<lparr>EnqueuedTask.ID = TaskMessage.ID msg,
                       EnqueuedTask.Type = TaskMessage.Type msg,
                       EnqueuedTask.Payload = TaskMessage.Payload msg\<rparr>]) data)"

definition ListEnqueued :: "'p unmarshal \<Rightarrow> RDB \<Rightarrow> error + 'p EnqueuedTask list" where
  "ListEnqueued U r =
     (case LRange DefaultQueue 0 (- 1) r of
        Inl err \<Rightarrow> Inl err
      | Inr data \<Rightarrow> ListEnqueued_loop U [] data)"

fun ListInProgress_loop ::
  "'p unmarshal \<Rightarrow> 'p InProgressTask list \<Rightarrow> string list \<Rightarrow> 'p InProgressTask list" where
  "ListInProgress_loop U tasks [] = tasks"
| "ListInProgress_loop U tasks (s # data) =
     (case U s of
        Inl err \<Rightarrow> ListInProgress_loop U tasks data
      | Inr msg \<Rightarrow>
          ListInProgress_loop U
            (tasks @ [\<lparr>InProgressTask.ID = TaskMessage.ID msg,
                       InProgressTask.Type = TaskMessage.Type msg,
                       InProgressTask.Payload = TaskMessage.Payload msg\<rparr>]) data)"

definition ListInProgress :: "'p unmarshal \<Rightarrow> RDB \<Rightarrow> error + 'p InProgressTask list" where
  "ListInProgress U r =
     (case LRange InProgressQueue 0 (- 1) r of
        Inl err \<Rightarrow> Inl err
      | Inr data \<Rightarrow> Inr (ListInProgress_loop U [] data))"

fun ListScheduled_loop ::
  "'p unmarshal \<Rightarrow> (float64 \<Rightarrow> int) \<Rightarrow> 'p ScheduledTask list \<Rightarrow> Z list
     \<Rightarrow> 'p ScheduledTask list" where
  "ListScheduled_loop U impl tasks [] = tasks"
| "ListScheduled_loop U impl tasks (z # data) =
     (case Z.Member z of
        MOther \<Rightarrow> ListScheduled_loop U impl tasks data
      | MString s \<Rightarrow>
          (case U s of
             Inl err \<Rightarrow> ListScheduled_loop U impl tasks data
           | Inr msg \<Rightarrow>
               (let processAt = Unix (int64_of_float64 impl (Z.Score z)) 0
                in ListScheduled_loop U impl
                     (tasks @ [\<lparr>ScheduledTask.ID = TaskMessage.ID msg,
                                ScheduledTask.Type = TaskMessage.Type msg,
                                ScheduledTask.Payload = TaskMessage.Payload msg,
                                ScheduledTask.ProcessAt = processAt,
                                ScheduledTask.Score = int64_of_float64 impl (Z.Score z)\<rparr>])
                     data)))"

definition ListScheduled ::
  "'p unmarshal \<Rightarrow> (float64 \<Rightarrow> int) \<Rightarrow> RDB \<Rightarrow> error + 'p ScheduledTask list" where
  "ListScheduled U impl r =
     (case ZRangeWithScores ScheduledQueue 0 (- 1) r of
        Inl err \<Rightarrow> Inl err
      | Inr data \<Rightarrow> Inr (ListScheduled_loop U impl [] data))"

fun ListRetry_loop ::
  "'p unmarshal \<Rightarrow> (float64 \<Rightarrow> int) \<Rightarrow> 'p RetryTask list \<Rightarrow> Z list
     \<Rightarrow> 'p RetryTask list" where
  "ListRetry_loop U impl tasks [] = tasks"
| "ListRetry_loop U impl tasks (z # data) =
     (case Z.Member z of
        MOther \<Rightarrow> ListRetry_loop U impl tasks data
      | MString s \<Rightarrow>
          (case U s of
             Inl err \<Rightarrow> ListRetry_loop U impl tasks data
           | Inr msg \<Rightarrow>
               (let processAt = Unix (int64_of_float64 impl (Z.Score z)) 0
                in ListRetry_loop U impl
                     (tasks @ [\<lparr>RetryTask.ID = TaskMessage.ID msg,
                                RetryTask.Type = TaskMessage.Type msg,
                                RetryTask.Payload = TaskMessage.Payload msg,
                                RetryTask.ProcessAt = processAt,
                                RetryTask.ErrorMsg = TaskMessage.ErrorMsg msg,
                                RetryTask.Retried = TaskMessage.Retried msg,
                                RetryTask.Retry = TaskMessage.Retry msg,
                                RetryTask.Score = int64_of_float64 impl (Z.Score z)\<rparr>])
                     data)))"

definition ListRetry ::
  "'p unmarshal \<Rightarrow> (float64 \<Rightarrow> int) \<Rightarrow> RDB \<Rightarrow> error + 'p RetryTask list" where
  "ListRetry U impl r =
     (case ZRangeWithScores RetryQueue 0 (- 1) r of
        Inl err \<Rightarrow> Inl err
      | Inr data \<Rightarrow> Inr (ListRetry_loop U impl [] data))"

fun ListDead_loop ::
  "'p unmarshal \<Rightarrow> (float64 \<Rightarrow> int) \<Rightarrow> 'p DeadTask list \<Rightarrow> Z list
     \<Rightarrow> 'p DeadTask list" where
  "ListDead_loop U impl tasks [] = tasks"
| "ListDead_loop U impl tasks (z # data) =
     (case Z.Member z of
        MOther \<Rightarrow> ListDead_loop U impl tasks data
      | MString s \<Rightarrow>
          (case U s of
             Inl err \<Rightarrow> ListDead_loop U impl tasks data
           | Inr msg \<Rightarrow>
               (let lastFailedAt = Unix (int64_of_float64 impl (Z.Score z)) 0
                in ListDead_loop U impl
                     (tasks @ [\<lparr>DeadTask.ID = TaskMessage.ID msg,
                                DeadTask.Type = TaskMessage.Type msg,
                                DeadTask.Payload = TaskMessage.Payload msg,
                                DeadTask.LastFailedAt = lastFailedAt,
                                DeadTask.ErrorMsg = TaskMessage.ErrorMsg msg,
                                DeadTask.Score = int64_of_float64 impl (Z.Score z)\<rparr>])
                     data)))"

definition ListDead ::
  "'p unmarshal \<Rightarrow> (float64 \<Rightarrow> int) \<Rightarrow> RDB \<Rightarrow> error + 'p DeadTask list" where
  "ListDead U impl r =
     (case ZRangeWithScores DeadQueue 0 (- 1) r of
        Inl err \<Rightarrow> Inl err
      | Inr data \<Rightarrow> Inr (ListDead_loop U impl [] data))"

section \<open>Transitions\<close>

text \<open>
  The values of the scripts. A table is given by its fields with a string key, which is
  all that \<open>decoded["ID"]\<close> looks at; \<open>LUserdata\<close> is \<open>cjson.null\<close>.
\<close>

datatype lua_value =
    LNil
  | LBoolean bool
  | LNumber real
  | LString string
  | LTable "(string \<times> lua_value) list"
  | LUserdata

text \<open>
  \<open>cjson.decode\<close> is the parameter \<open>cj\<close> of each script: the decoded value, or the
  message of the error it raises.
\<close>

type_synonym cjson = "string \<Rightarrow> string + lua_value"

text \<open>
  \<open>decoded["ID"]\<close>: the field of a table, \<open>nil\<close> when it has none; \<open>nil\<close> on a string (the
  string library has no such entry); an error on every other value.
\<close>

definition index_ID :: "lua_value \<Rightarrow> string + lua_value" where
  "index_ID decoded =
     (case decoded of
        LTable tbl \<Rightarrow> (case map_of tbl ''ID'' of None \<Rightarrow> Inr LNil | Some v \<Rightarrow> Inr v)
      | LString s \<Rightarrow> Inr LNil
      | _ \<Rightarrow> Inl ''attempt to index a value that is neither a table nor a string'')"

text \<open>What a script returns to the client: here always an integer.\<close>

datatype reply = Integer int | Bulk string

text \<open>The loop of the script of \<open>removeAndEnqueue\<close> over \<open>msgs\<close>; the keys and arguments
  are those of the script.\<close>

fun removeAndEnqueue_loop ::
  "cjson \<Rightarrow> zkey \<Rightarrow> lkey \<Rightarrow> string \<Rightarrow> string list \<Rightarrow> RDB \<Rightarrow> (string + reply) \<times> RDB" where
  "removeAndEnqueue_loop cj key1 key2 argv2 [] r = (Inr (Integer 0), r)"
| "removeAndEnqueue_loop cj key1 key2 argv2 (msg # msgs) r =
     (case cj msg of
        Inl err \<Rightarrow> (Inl err, r)
      | Inr decoded \<Rightarrow>
          (case index_ID decoded of
             Inl err \<Rightarrow> (Inl err, r)
           | Inr v \<Rightarrow>
               if v = LString argv2
               then (Inr (Integer 1), LPUSH key2 msg (ZREM key1 msg r))
               else removeAndEnqueue_loop cj key1 key2 argv2 msgs r))"

definition removeAndEnqueue_script ::
  "cjson \<Rightarrow> zkey \<Rightarrow> lkey \<Rightarrow> float64 \<Rightarrow> string \<Rightarrow> RDB \<Rightarrow> (string + reply) \<times> RDB" where
  "removeAndEnqueue_script cj key1 key2 argv1 argv2 r =
     removeAndEnqueue_loop cj key1 key2 argv2 (ZRANGEBYSCORE key1 argv1 argv1 r) r"

text \<open>
  \<open>script.Run(r.client, keys, args...).Result()\<close>: the script runs as one step on the
  store. An error raised in it comes back as the error of the call, with whatever the
  script had written before.
\<close>

definition Run :: "(RDB \<Rightarrow> (string + reply) \<times> RDB) \<Rightarrow> RDB \<Rightarrow> (error + reply) \<times> RDB" where
  "Run script r =
     (case transport_error r of
        Some e \<Rightarrow> (Inl (RedisError e), r)
      | None \<Rightarrow>
          (case script r of
             (Inl err, r') \<Rightarrow> (Inl (ScriptError err), r')
           | (Inr res, r') \<Rightarrow> (Inr res, r')))"

definition removeAndEnqueue ::
  "cjson \<Rightarrow> zkey \<Rightarrow> string \<Rightarrow> float64 \<Rightarrow> RDB \<Rightarrow> (error + int) \<times> RDB" where
  "removeAndEnqueue cj zset tid score r =
     (case Run (removeAndEnqueue_script cj zset DefaultQueue score tid) r of
        (Inl err, r') \<Rightarrow> (Inl err, r')
      | (Inr res, r') \<Rightarrow>
          (case res of
             Integer n \<Rightarrow> (Inr n, r')
           | _ \<Rightarrow> (Inl CastError, r')))"

fun removeAndEnqueueAll_loop :: "zkey \<Rightarrow> lkey \<Rightarrow> string list \<Rightarrow> RDB \<Rightarrow> RDB" where
  "removeAndEnqueueAll_loop key1 key2 [] r = r"
| "removeAndEnqueueAll_loop key1 key2 (msg # msgs) r =
     removeAndEnqueueAll_loop key1 key2 msgs (LPUSH key2 msg (ZREM key1 msg r))"

definition removeAndEnqueueAll_script ::
  "zkey \<Rightarrow> lkey \<Rightarrow> RDB \<Rightarrow> (string + reply) \<times> RDB" where
  "removeAndEnqueueAll_script key1 key2 r =
     (let msgs = ZRANGE key1 0 (- 1) r
      in (Inr (Integer (int (length msgs))), removeAndEnqueueAll_loop key1 key2 msgs r))"

definition removeAndEnqueueAll :: "zkey \<Rightarrow> RDB \<Rightarrow> (error + int) \<times> RDB" where
  "removeAndEnqueueAll zset r =
     (case Run (removeAndEnqueueAll_script zset DefaultQueue) r of
        (Inl err, r') \<Rightarrow> (Inl err, r')
      | (Inr res, r') \<Rightarrow>
          (case res of
             Integer n \<Rightarrow> (Inr n, r')
           | _ \<Rightarrow> (Inl CastError, r')))"

fun deleteTask_loop ::
  "cjson \<Rightarrow> zkey \<Rightarrow> string \<Rightarrow> string list \<Rightarrow> RDB \<Rightarrow> (string + reply) \<times> RDB" where
  "deleteTask_loop cj key1 argv2 [] r = (Inr (Integer 0), r)"
| "deleteTask_loop cj key1 argv2 (msg # msgs) r =
     (case cj msg of
        Inl err \<Rightarrow> (Inl err, r)
      | Inr decoded \<Rightarrow>
          (case index_ID decoded of
             Inl err \<Rightarrow> (Inl err, r)
           | Inr v \<Rightarrow>
               if v = LString argv2
               then (Inr (Integer 1), ZREM key1 msg r)
               else deleteTask_loop cj key1 argv2 msgs r))"

definition deleteTask_script ::
  "cjson \<Rightarrow> zkey \<Rightarrow> float64 \<Rightarrow> string \<Rightarrow> RDB \<Rightarrow> (string + reply) \<times> RDB" where
  "deleteTask_script cj key1 argv1 argv2 r =
     deleteTask_loop cj key1 argv2 (ZRANGEBYSCORE key1 argv1 argv1 r) r"

text \<open>An \<open>error\<close> result of Go is \<open>Some\<close> error, or \<open>None\<close> for \<open>nil\<close>.\<close>

definition deleteTask :: "cjson \<Rightarrow> zkey \<Rightarrow> string \<Rightarrow> float64 \<Rightarrow> RDB \<Rightarrow> error option \<times> RDB" where
  "deleteTask cj zset tid score r =
     (case Run (deleteTask_script cj zset score tid) r of
        (Inl err, r') \<Rightarrow> (Some err, r')
      | (Inr res, r') \<Rightarrow>
          (case res of
             Integer n \<Rightarrow> if n = 0 then (Some ErrTaskNotFound, r') else (None, r')
           | _ \<Rightarrow> (Some CastError, r')))"

definition EnqueueDeadTask :: "cjson \<Rightarrow> xid \<Rightarrow> int \<Rightarrow> RDB \<Rightarrow> error option \<times> RDB" where
  "EnqueueDeadTask cj tid score r =
     (case removeAndEnqueue cj DeadQueue tid (float64_of_int64 score) r of
        (Inl err, r') \<Rightarrow> (Some err, r')
      | (Inr n, r') \<Rightarrow> if n = 0 then (Some ErrTaskNotFound, r') else (None, r'))"

definition EnqueueRetryTask :: "cjson \<Rightarrow> xid \<Rightarrow> int \<Rightarrow> RDB \<Rightarrow> error option \<times> RDB" where
  "EnqueueRetryTask cj tid score r =
     (case removeAndEnqueue cj RetryQueue tid (float64_of_int64 score) r of
        (Inl err, r') \<Rightarrow> (Some err, r')
      | (Inr n, r') \<Rightarrow> if n = 0 then (Some ErrTaskNotFound, r') else (None, r'))"

definition EnqueueScheduledTask :: "cjson \<Rightarrow> xid \<Rightarrow> int \<Rightarrow> RDB \<Rightarrow> error option \<times> RDB" where
  "EnqueueScheduledTask cj tid score r =
     (case removeAndEnqueue cj ScheduledQueue tid (float64_of_int64 score) r of
        (Inl err, r') \<Rightarrow> (Some err, r')
      | (Inr n, r') \<Rightarrow> if n = 0 then (Some ErrTaskNotFound, r') else (None, r'))"

definition EnqueueAllScheduledTasks :: "RDB \<Rightarrow> (error + int) \<times> RDB" where
  "EnqueueAllScheduledTasks r = removeAndEnqueueAll ScheduledQueue r"

definition EnqueueAllRetryTasks :: "RDB \<Rightarrow> (error + int) \<times> RDB" where
  "EnqueueAllRetryTasks r = removeAndEnqueueAll RetryQueue r"

definition EnqueueAllDeadTasks :: "RDB \<Rightarrow> (error + int) \<times> RDB" where
  "EnqueueAllDeadTasks r = removeAndEnqueueAll DeadQueue r"

definition DeleteDeadTask :: "cjson \<Rightarrow> xid \<Rightarrow> int \<Rightarrow> RDB \<Rightarrow> error option \<times> RDB" where
  "DeleteDeadTask cj tid score r = deleteTask cj DeadQueue tid (float64_of_int64 score) r"

definition DeleteRetryTask :: "cjson \<Rightarrow> xid \<Rightarrow> int \<Rightarrow> RDB \<Rightarrow> error option \<times> RDB" where
  "DeleteRetryTask cj tid score r = deleteTask cj RetryQueue tid (float64_of_int64 score) r"

definition DeleteScheduledTask :: "cjson \<Rightarrow> xid \<Rightarrow> int \<Rightarrow> RDB \<Rightarrow> error option \<times> RDB" where
  "DeleteScheduledTask cj tid score r =
     deleteTask cj ScheduledQueue tid (float64_of_int64 score) r"

definition DeleteAllDeadTasks :: "RDB \<Rightarrow> error option \<times> RDB" where
  "DeleteAllDeadTasks r = Del DeadQueue r"

definition DeleteAllRetryTasks :: "RDB \<Rightarrow> error option \<times> RDB" where
  "DeleteAllRetryTasks r = Del RetryQueue r"

definition DeleteAllScheduledTasks :: "RDB \<Rightarrow> error option \<times> RDB" where
  "DeleteAllScheduledTasks r = Del ScheduledQueue r"

section \<open>Notions for stating the properties\<close>

text \<open>The view record that each listing builds from a decoded message, and from the
  score for the three sorted sets.\<close>

definition enqueued_view :: "'p TaskMessage \<Rightarrow> 'p EnqueuedTask" where
  "enqueued_view msg =
     \<lparr>EnqueuedTask.ID = TaskMessage.ID msg, EnqueuedTask.Type = TaskMessage.Type msg,
      EnqueuedTask.Payload = TaskMessage.Payload msg\<rparr>"

definition inprogress_view :: "'p TaskMessage \<Rightarrow> 'p InProgressTask" where
  "inprogress_view msg =
     \<lparr>InProgressTask.ID = TaskMessage.ID msg, InProgressTask.Type = TaskMessage.Type msg,
      InProgressTask.Payload = TaskMessage.Payload msg\<rparr>"

definition scheduled_view :: "'p TaskMessage \<Rightarrow> int \<Rightarrow> 'p ScheduledTask" where
  "scheduled_view msg n =
     \<lparr>ScheduledTask.ID = TaskMessage.ID msg, ScheduledTask.Type = TaskMessage.Type msg,
      ScheduledTask.Payload = TaskMessage.Payload msg,
      ScheduledTask.ProcessAt = Unix n 0, ScheduledTask.Score = n\<rparr>"

definition retry_view :: "'p TaskMessage \<Rightarrow> int \<Rightarrow> 'p RetryTask" where
  "retry_view msg n =
     \<lparr>RetryTask.ID = TaskMessage.ID msg, RetryTask.Type = TaskMessage.Type msg,
      RetryTask.Payload = TaskMessage.Payload msg, RetryTask.ProcessAt = Unix n 0,
      RetryTask.ErrorMsg = TaskMessage.ErrorMsg msg,
      RetryTask.Retried = TaskMessage.Retried msg, RetryTask.Retry = TaskMessage.Retry msg,
      RetryTask.Score = n\<rparr>"

definition dead_view :: "'p TaskMessage \<Rightarrow> int \<Rightarrow> 'p DeadTask" where
  "dead_view msg n =
     \<lparr>DeadTask.ID = TaskMessage.ID msg, DeadTask.Type = TaskMessage.Type msg,
      DeadTask.Payload = TaskMessage.Payload msg, DeadTask.LastFailedAt = Unix n 0,
      DeadTask.ErrorMsg = TaskMessage.ErrorMsg msg, DeadTask.Score = n\<rparr>"

text \<open>The entries that \<open>json.Unmarshal\<close> accepts, in their order, each with its message.\<close>

definition decoded_strings :: "'p unmarshal \<Rightarrow> string list \<Rightarrow> 'p TaskMessage list" where
  "decoded_strings U data = map (\<lambda>s. projr (U s)) (filter (\<lambda>s. \<not> isl (U s)) data)"

definition decoded_entries ::
  "'p unmarshal \<Rightarrow> (string \<times> float64) list \<Rightarrow> ('p TaskMessage \<times> float64) list" where
  "decoded_entries U data =
     map (\<lambda>z. (projr (U (fst z)), snd z)) (filter (\<lambda>z. \<not> isl (U (fst z))) data)"

text \<open>What the script reads as \<open>decoded["ID"]\<close> of an entry, or the error raised on the
  way.\<close>

definition lua_ID :: "cjson \<Rightarrow> string \<Rightarrow> string + lua_value" where
  "lua_ID cj msg = (case cj msg of Inl err \<Rightarrow> Inl err | Inr decoded \<Rightarrow> index_ID decoded)"

text \<open>A score whose conversion to \<open>int64\<close> Go defines.\<close>

definition fits_int64 :: "float64 \<Rightarrow> bool" where
  "fits_int64 f =
     (case f of Finite x \<Rightarrow> - (2 ^ 63) \<le> trunc x \<and> trunc x < 2 ^ 63 | _ \<Rightarrow> False)"

text \<open>
  The scan of the scripts of \<open>removeAndEnqueue\<close> and \<open>deleteTask\<close> without its effects:
  it raises at an entry, or reads every entry and finds none with the ID, or stops at the
  first entry with the ID.
\<close>

datatype found = Raised string | NoMatch | Match string

fun scan :: "cjson \<Rightarrow> string \<Rightarrow> string list \<Rightarrow> found" where
  "scan cj argv2 [] = NoMatch"
| "scan cj argv2 (msg # msgs) =
     (case lua_ID cj msg of
        Inl err \<Rightarrow> Raised err
      | Inr v \<Rightarrow> if v = LString argv2 then Match msg else scan cj argv2 msgs)"

text \<open>The single-record requeue and delete operation of each sorted set.\<close>

definition requeue_op :: "zkey \<Rightarrow> cjson \<Rightarrow> xid \<Rightarrow> int \<Rightarrow> RDB \<Rightarrow> error option \<times> RDB" where
  "requeue_op k =
     (case k of ScheduledQueue \<Rightarrow> EnqueueScheduledTask | RetryQueue \<Rightarrow> EnqueueRetryTask
      | DeadQueue \<Rightarrow> EnqueueDeadTask)"

definition delete_op :: "zkey \<Rightarrow> cjson \<Rightarrow> xid \<Rightarrow> int \<Rightarrow> RDB \<Rightarrow> error option \<times> RDB" where
  "delete_op k =
     (case k of ScheduledQueue \<Rightarrow> DeleteScheduledTask | RetryQueue \<Rightarrow> DeleteRetryTask
      | DeadQueue \<Rightarrow> DeleteDeadTask)"

text \<open>The bulk requeue operation of each sorted set.\<close>

definition requeue_all_op :: "zkey \<Rightarrow> RDB \<Rightarrow> (error + int) \<times> RDB" where
  "requeue_all_op k =
     (case k of ScheduledQueue \<Rightarrow> EnqueueAllScheduledTasks | RetryQueue \<Rightarrow> EnqueueAllRetryTasks
      | DeadQueue \<Rightarrow> EnqueueAllDeadTasks)"


section \<open>Sample data\<close>

text \<open>Three encoded task messages, a text that is no JSON, and a store built from the
  contents of its five keys.\<close>

definition text1 :: string where
  \<open>text1 = ''{"ID":"9m4e2mr0ui3e8a215n4g","Type":"send_email","Payload":{}}''\<close>

definition text2 :: string where
  \<open>text2 = ''{"ID":"9m4e2mr0ui3e8a215n50","Type":"gen_thumbnail","Payload":{}}''\<close>

definition text3 :: string where
  \<open>text3 = ''{"ID":"9m4e2mr0ui3e8a215n5g","Type":"send_email","Payload":{}}''\<close>

definition garbage :: string where
  "garbage = ''garbage''"

definition message :: "xid \<Rightarrow> string \<Rightarrow> (string \<times> string) list TaskMessage" where
  "message i t = \<lparr>TaskMessage.ID = i, TaskMessage.Type = t, TaskMessage.Payload = [],
                  TaskMessage.Retry = 0, TaskMessage.Retried = 0, TaskMessage.ErrorMsg = []\<rparr>"

text \<open>
  \<open>json.Unmarshal\<close> and \<open>cjson.decode\<close> on the sample texts. Both fail on \<open>garbage\<close>;
  the examples apply them to no text but these four.
\<close>

definition sample_U :: "(string \<times> string) list unmarshal" where
  "sample_U s =
     (if s = text1 then Inr (message ''9m4e2mr0ui3e8a215n4g'' ''send_email'')
      else if s = text2 then Inr (message ''9m4e2mr0ui3e8a215n50'' ''gen_thumbnail'')
      else if s = text3 then Inr (message ''9m4e2mr0ui3e8a215n5g'' ''send_email'')
      else Inl ''invalid character g looking for beginning of value'')"

definition sample_cj :: cjson where
  "sample_cj s =
     (if s = text1 then
        Inr (LTable [(''ID'', LString ''9m4e2mr0ui3e8a215n4g''),
                     (''Type'', LString ''send_email''), (''Payload'', LTable [])])
      else if s = text2 then
        Inr (LTable [(''ID'', LString ''9m4e2mr0ui3e8a215n50''),
                     (''Type'', LString ''gen_thumbnail''), (''Payload'', LTable [])])
      else if s = text3 then
        Inr (LTable [(''ID'', LString ''9m4e2mr0ui3e8a215n5g''),
                     (''Type'', LString ''send_email''), (''Payload'', LTable [])])
      else Inl ''Expected value but found invalid token at character 1'')"

definition store :: "string list \<Rightarrow> string list \<Rightarrow> zset \<Rightarrow> zset \<Rightarrow> zset \<Rightarrow> RDB" where
  "store pending active scheduled retry dead =
     \<lparr>lists = (\<lambda>k. case k of DefaultQueue \<Rightarrow> pending | InProgressQueue \<Rightarrow> active),
      zsets = (\<lambda>k. case k of ScheduledQueue \<Rightarrow> scheduled | RetryQueue \<Rightarrow> retry
                       | DeadQueue \<Rightarrow> dead),
      info_text = [], transport_error = None, clock = 0\<rparr>"

text \<open>Stores for the examples of the listings.\<close>

definition mixed_store :: RDB where
  "mixed_store =
     store [text1, garbage] [garbage, text1] [(text1, Finite 5), (garbage, Finite 6)]
       [(garbage, Finite 5), (text1, Finite 5)] [(garbage, Finite 1), (text1, Finite 2.5)]"

definition listing_store :: RDB where
  "listing_store =
     store [text1, text2] [text2, garbage, text1]
       [(text2, Finite 5), (garbage, Finite 6), (text1, Finite 7.5)]
       [(text1, Finite 1), (text3, Finite 1)] [(garbage, Finite 2), (text3, Finite 3)]"

definition fraction_store :: RDB where
  "fraction_store =
     store [] [] [(text1, Finite 5.75)] [(text2, Finite (- 2.5))] [(text3, Finite 7)]"

text \<open>Stores for the examples of the transitions.\<close>

definition requeue_store :: RDB where
  "requeue_store =
     store [] [] [] []
       [(garbage, Finite 4), (text1, Finite 5), (text2, Finite 5), (text3, Finite 5)]"

definition malformed_store :: RDB where
  "malformed_store = store [] [] [] [] [(garbage, Finite 5), (text1, Finite 5)]"


definition rounding_store :: RDB where
  "rounding_store = store [] [] [] [] [(text1, Finite 9007199254740992)]"



section \<open>Facts about the commands and conversions\<close>

lemma range_idx_all: "range_idx xs 0 (- 1) = xs"
  by (cases xs) (simp_all add: range_idx_def Let_def)

lemma LRANGE_all: "LRANGE k 0 (- 1) r = lists r k"
  by (simp add: LRANGE_def range_idx_all)

lemma ZRANGE_WITHSCORES_all: "ZRANGE_WITHSCORES k 0 (- 1) r = zsets r k"
  by (simp add: ZRANGE_WITHSCORES_def range_idx_all)

lemma ZRANGE_all: "ZRANGE k 0 (- 1) r = map fst (zsets r k)"
  by (simp add: ZRANGE_def range_idx_all)

lemma ZRANGEBYSCORE_at:
  "ZRANGEBYSCORE k score score r = map fst (filter (\<lambda>(m, s). s = score) (zsets r k))"
proof -
  have "(\<lambda>(m, s). score \<le> s \<and> s \<le> score) = (\<lambda>(m :: string, s). s = score)"
    by (auto simp: fun_eq_iff)
  then show ?thesis
    by (simp add: ZRANGEBYSCORE_def)
qed

lemma Now_nano: "UnixNano (Now ns) = ns"
  by (simp add: UnixNano_def Now_def)

lemma float64_of_int64_exact: "\<bar>n\<bar> < 2 ^ 53 \<Longrightarrow> float64_of_int64 n = Finite (of_int n)"
  by (simp add: float64_of_int64_def Let_def)

lemma floorlog_example: "floorlog 2 9007199254740993 = 54"
  by (simp add: compute_floorlog)

lemma float64_of_int64_rounds:
  "float64_of_int64 9007199254740993 = Finite 9007199254740992"
  by (simp add: float64_of_int64_def Let_def floorlog_example)

lemma sample_U_simps:
  "sample_U text1 = Inr (message ''9m4e2mr0ui3e8a215n4g'' ''send_email'')"
  "sample_U text2 = Inr (message ''9m4e2mr0ui3e8a215n50'' ''gen_thumbnail'')"
  "sample_U text3 = Inr (message ''9m4e2mr0ui3e8a215n5g'' ''send_email'')"
  "sample_U garbage = Inl ''invalid character g looking for beginning of value''"
  by (simp_all add: sample_U_def text1_def text2_def text3_def garbage_def)

section \<open>Stats\<close>

text \<open>
  C6. CurrentStats queues the five length and cardinality queries in one pipeline, sent
  by one Exec. When the store answers, it returns the lengths of the Pending and Active
  lists and the cardinalities of the Scheduled, Retry and Dead sets, with the time read
  after the answer; whenever it returns stats, their timestamp is no earlier than the
  start of the call.
\<close>

theorem CurrentStats_counts:
  "(transport_error r = None \<longrightarrow>
      CurrentStats elapsed r =
        Inr \<lparr>Enqueued = int (length (lists r DefaultQueue)),
             InProgress = int (length (lists r InProgressQueue)),
             Scheduled = int (length (zsets r ScheduledQueue)),
             Stats.Retry = int (length (zsets r RetryQueue)),
             Dead = int (length (zsets r DeadQueue)),
             Timestamp = Now (clock r + int elapsed)\<rparr>)
   \<and> (\<forall>st. CurrentStats elapsed r = Inr st \<longrightarrow> clock r \<le> UnixNano (Timestamp st))"
  by (auto simp: CurrentStats_def Exec_def run_cmd_def LLEN_def ZCARD_def Now_nano
           split: option.splits)

text \<open>The example of the specification: 3 pending, 1 active, 2 scheduled, 0 retry and
  1 dead entry, read 1.5 seconds after the call started at time 0.\<close>

theorem CurrentStats_counts_witness:
  "transport_error (store [text1, text2, text3] [garbage]
       [(text1, Finite 5), (text2, Finite 6)] [] [(garbage, Finite 7)]) = None
   \<and> CurrentStats 1500000000
        (store [text1, text2, text3] [garbage] [(text1, Finite 5), (text2, Finite 6)] []
           [(garbage, Finite 7)])
      = Inr \<lparr>Enqueued = 3, InProgress = 1, Scheduled = 2, Stats.Retry = 0, Dead = 1,
             Timestamp = Unix 1 500000000\<rparr>
   \<and> clock (store [text1, text2, text3] [garbage] [(text1, Finite 5), (text2, Finite 6)] []
           [(garbage, Finite 7)]) \<le> UnixNano (Unix 1 500000000)"
  using CurrentStats_counts [of "store [text1, text2, text3] [garbage]
      [(text1, Finite 5), (text2, Finite 6)] [] [(garbage, Finite 7)]" 1500000000]
  by (simp add: store_def Now_def UnixNano_def)

section \<open>Listings\<close>

subsection \<open>The loops\<close>

lemma ListInProgress_loop_eq:
  "ListInProgress_loop U tasks data = tasks @ map inprogress_view (decoded_strings U data)"
  by (induction data arbitrary: tasks)
     (auto simp: decoded_strings_def inprogress_view_def split: sum.splits)

lemma ListEnqueued_loop_ok:
  "\<forall>s\<in>set data. \<not> isl (U s) \<Longrightarrow>
     ListEnqueued_loop U tasks data = Inr (tasks @ map enqueued_view (decoded_strings U data))"
  by (induction data arbitrary: tasks)
     (auto simp: decoded_strings_def enqueued_view_def split: sum.splits)

lemma ListEnqueued_loop_err:
  "\<forall>s\<in>set pre. \<not> isl (U s) \<Longrightarrow> U b = Inl e \<Longrightarrow>
     ListEnqueued_loop U tasks (pre @ b # post) = Inl (UnmarshalError e)"
  by (induction pre arbitrary: tasks) (auto split: sum.splits)

lemma ListEnqueued_loop_Inr:
  "ListEnqueued_loop U tasks data = Inr res \<Longrightarrow> \<forall>s\<in>set data. \<not> isl (U s)"
  by (induction data arbitrary: tasks) (auto split: sum.splits)

lemma ListScheduled_loop_eq:
  "ListScheduled_loop U impl tasks (map (\<lambda>(m, s). \<lparr>Z.Score = s, Z.Member = MString m\<rparr>) data) =
     tasks @ map (\<lambda>(msg, s). scheduled_view msg (int64_of_float64 impl s)) (decoded_entries U data)"
  by (induction data arbitrary: tasks)
     (auto simp: decoded_entries_def scheduled_view_def split: sum.splits)

lemma ListRetry_loop_eq:
  "ListRetry_loop U impl tasks (map (\<lambda>(m, s). \<lparr>Z.Score = s, Z.Member = MString m\<rparr>) data) =
     tasks @ map (\<lambda>(msg, s). retry_view msg (int64_of_float64 impl s)) (decoded_entries U data)"
  by (induction data arbitrary: tasks)
     (auto simp: decoded_entries_def retry_view_def split: sum.splits)

lemma ListDead_loop_eq:
  "ListDead_loop U impl tasks (map (\<lambda>(m, s). \<lparr>Z.Score = s, Z.Member = MString m\<rparr>) data) =
     tasks @ map (\<lambda>(msg, s). dead_view msg (int64_of_float64 impl s)) (decoded_entries U data)"
  by (induction data arbitrary: tasks)
     (auto simp: decoded_entries_def dead_view_def split: sum.splits)

lemma trunc_mono: "x \<le> y \<Longrightarrow> trunc x \<le> trunc y"
  unfolding trunc_def
  by (auto simp: floor_mono ceiling_mono intro: order_trans [of _ 0])

lemma sorted_decoded_entries:
  "sorted (map snd data) \<Longrightarrow> sorted (map snd (decoded_entries U data))"
proof -
  assume a: "sorted (map snd data)"
  have "map snd (decoded_entries U data) = map snd (filter (\<lambda>z. \<not> isl (U (fst z))) data)"
    by (simp add: decoded_entries_def comp_def)
  moreover have "sorted (map snd (filter (\<lambda>z. \<not> isl (U (fst z))) data))"
    using a by (rule sorted_filter)
  ultimately show ?thesis by simp
qed

lemma int64_of_float64_mono:
  "fits_int64 a \<Longrightarrow> fits_int64 b \<Longrightarrow> a \<le> b \<Longrightarrow> int64_of_float64 impl a \<le> int64_of_float64 impl b"
  by (cases a; cases b) (simp_all add: fits_int64_def int64_of_float64_def trunc_mono)

lemma sorted_scores:
  "sorted (map snd data) \<Longrightarrow> \<forall>z\<in>set data. fits_int64 (snd z) \<Longrightarrow>
     sorted (map (\<lambda>z. int64_of_float64 impl (snd z)) data)"
  by (induction data) (auto simp: int64_of_float64_mono)

lemma sorted_decoded_scores:
  assumes "sorted (map snd data)" and "\<forall>z\<in>set data. fits_int64 (snd z)"
  shows "sorted (map (\<lambda>z. int64_of_float64 impl (snd z)) (decoded_entries U data))"
proof (rule sorted_scores)
  show "sorted (map snd (decoded_entries U data))"
    using assms(1) by (rule sorted_decoded_entries)
  show "\<forall>z\<in>set (decoded_entries U data). fits_int64 (snd z)"
    using assms(2) by (auto simp: decoded_entries_def)
qed

lemma ListEnqueued_Inr:
  assumes "transport_error r = None" and "ListEnqueued U r = Inr tasks"
  shows "(\<forall>s\<in>set (lists r DefaultQueue). \<not> isl (U s))
         \<and> tasks = map enqueued_view (decoded_strings U (lists r DefaultQueue))"
proof -
  from assms have l: "ListEnqueued_loop U [] (lists r DefaultQueue) = Inr tasks"
    by (simp add: ListEnqueued_def LRange_def LRANGE_all)
  then have ok: "\<forall>s\<in>set (lists r DefaultQueue). \<not> isl (U s)"
    by (rule ListEnqueued_loop_Inr)
  with l show ?thesis
    by (simp add: ListEnqueued_loop_ok)
qed

lemma ListEnqueued_ok:
  "transport_error r = None \<Longrightarrow> \<forall>s\<in>set (lists r DefaultQueue). \<not> isl (U s) \<Longrightarrow>
     ListEnqueued U r = Inr (map enqueued_view (decoded_strings U (lists r DefaultQueue)))"
  by (simp add: ListEnqueued_def LRange_def LRANGE_all ListEnqueued_loop_ok)

lemma ListInProgress_eq:
  "transport_error r = None \<Longrightarrow>
     ListInProgress U r = Inr (map inprogress_view (decoded_strings U (lists r InProgressQueue)))"
  by (simp add: ListInProgress_def LRange_def LRANGE_all ListInProgress_loop_eq)

lemma ListScheduled_eq:
  "transport_error r = None \<Longrightarrow>
     ListScheduled U impl r =
       Inr (map (\<lambda>(msg, s). scheduled_view msg (int64_of_float64 impl s))
              (decoded_entries U (zsets r ScheduledQueue)))"
  by (simp add: ListScheduled_def ZRangeWithScores_def ZRANGE_WITHSCORES_all ListScheduled_loop_eq)

lemma ListRetry_eq:
  "transport_error r = None \<Longrightarrow>
     ListRetry U impl r =
       Inr (map (\<lambda>(msg, s). retry_view msg (int64_of_float64 impl s))
              (decoded_entries U (zsets r RetryQueue)))"
  by (simp add: ListRetry_def ZRangeWithScores_def ZRANGE_WITHSCORES_all ListRetry_loop_eq)

lemma ListDead_eq:
  "transport_error r = None \<Longrightarrow>
     ListDead U impl r =
       Inr (map (\<lambda>(msg, s). dead_view msg (int64_of_float64 impl s))
              (decoded_entries U (zsets r DeadQueue)))"
  by (simp add: ListDead_def ZRangeWithScores_def ZRANGE_WITHSCORES_all ListDead_loop_eq)

lemma trunc_bounds: "\<bar>x - real_of_int (trunc x)\<bar> < 1 \<and> \<bar>real_of_int (trunc x)\<bar> \<le> \<bar>x\<bar>"
  unfolding trunc_def by (auto; linarith)

subsection \<open>Malformed entries\<close>

text \<open>
  C2. With one well-formed and one malformed entry in a queue, in either order:
  ListEnqueued returns the decode error and no records, while ListInProgress,
  ListScheduled, ListRetry and ListDead skip the malformed entry and return exactly the
  view record of the well-formed one, with no error.
\<close>

theorem listing_asymmetry:
  assumes up: "transport_error r = None" and g: "U g = Inr msg" and b: "U b = Inl err"
  shows
    "(lists r DefaultQueue = [g, b] \<or> lists r DefaultQueue = [b, g] \<longrightarrow>
        ListEnqueued U r = Inl (UnmarshalError err))
     \<and> (lists r InProgressQueue = [g, b] \<or> lists r InProgressQueue = [b, g] \<longrightarrow>
        ListInProgress U r = Inr [inprogress_view msg])
     \<and> (zsets r ScheduledQueue = [(g, s), (b, s')] \<or> zsets r ScheduledQueue = [(b, s'), (g, s)] \<longrightarrow>
        ListScheduled U impl r = Inr [scheduled_view msg (int64_of_float64 impl s)])
     \<and> (zsets r RetryQueue = [(g, s), (b, s')] \<or> zsets r RetryQueue = [(b, s'), (g, s)] \<longrightarrow>
        ListRetry U impl r = Inr [retry_view msg (int64_of_float64 impl s)])
     \<and> (zsets r DeadQueue = [(g, s), (b, s')] \<or> zsets r DeadQueue = [(b, s'), (g, s)] \<longrightarrow>
        ListDead U impl r = Inr [dead_view msg (int64_of_float64 impl s)])"
proof (intro conjI impI)
  assume "lists r DefaultQueue = [g, b] \<or> lists r DefaultQueue = [b, g]"
  then show "ListEnqueued U r = Inl (UnmarshalError err)"
    using up g b by (auto simp: ListEnqueued_def LRange_def LRANGE_all)
next
  assume "lists r InProgressQueue = [g, b] \<or> lists r InProgressQueue = [b, g]"
  then show "ListInProgress U r = Inr [inprogress_view msg]"
    using up g b by (auto simp: ListInProgress_eq decoded_strings_def)
next
  assume "zsets r ScheduledQueue = [(g, s), (b, s')] \<or> zsets r ScheduledQueue = [(b, s'), (g, s)]"
  then show "ListScheduled U impl r = Inr [scheduled_view msg (int64_of_float64 impl s)]"
    using up g b by (auto simp: ListScheduled_eq decoded_entries_def)
next
  assume "zsets r RetryQueue = [(g, s), (b, s')] \<or> zsets r RetryQueue = [(b, s'), (g, s)]"
  then show "ListRetry U impl r = Inr [retry_view msg (int64_of_float64 impl s)]"
    using up g b by (auto simp: ListRetry_eq decoded_entries_def)
next
  assume "zsets r DeadQueue = [(g, s), (b, s')] \<or> zsets r DeadQueue = [(b, s'), (g, s)]"
  then show "ListDead U impl r = Inr [dead_view msg (int64_of_float64 impl s)]"
    using up g b by (auto simp: ListDead_eq decoded_entries_def)
qed

theorem listing_asymmetry_witness:
  "transport_error mixed_store = None
   \<and> sample_U text1 = Inr (message ''9m4e2mr0ui3e8a215n4g'' ''send_email'')
   \<and> sample_U garbage = Inl ''invalid character g looking for beginning of value''
   \<and> lists mixed_store DefaultQueue = [text1, garbage]
   \<and> ListEnqueued sample_U mixed_store
        = Inl (UnmarshalError ''invalid character g looking for beginning of value'')
   \<and> lists mixed_store InProgressQueue = [garbage, text1]
   \<and> ListInProgress sample_U mixed_store
        = Inr [inprogress_view (message ''9m4e2mr0ui3e8a215n4g'' ''send_email'')]
   \<and> zsets mixed_store ScheduledQueue = [(text1, Finite 5), (garbage, Finite 6)]
   \<and> ListScheduled sample_U (\<lambda>f. 0) mixed_store
        = Inr [scheduled_view (message ''9m4e2mr0ui3e8a215n4g'' ''send_email'') 5]
   \<and> zsets mixed_store RetryQueue = [(garbage, Finite 5), (text1, Finite 5)]
   \<and> ListRetry sample_U (\<lambda>f. 0) mixed_store
        = Inr [retry_view (message ''9m4e2mr0ui3e8a215n4g'' ''send_email'') 5]
   \<and> zsets mixed_store DeadQueue = [(garbage, Finite 1), (text1, Finite 2.5)]
   \<and> ListDead sample_U (\<lambda>f. 0) mixed_store
        = Inr [dead_view (message ''9m4e2mr0ui3e8a215n4g'' ''send_email'') 2]"
proof -
  have up: "transport_error mixed_store = None"
    by (simp add: mixed_store_def store_def)
  have q: "lists mixed_store DefaultQueue = [text1, garbage]"
    "lists mixed_store InProgressQueue = [garbage, text1]"
    "zsets mixed_store ScheduledQueue = [(text1, Finite 5), (garbage, Finite 6)]"
    "zsets mixed_store RetryQueue = [(garbage, Finite 5), (text1, Finite 5)]"
    "zsets mixed_store DeadQueue = [(garbage, Finite 1), (text1, Finite 2.5)]"
    by (simp_all add: mixed_store_def store_def)
  note t = listing_asymmetry [OF up sample_U_simps(1) sample_U_simps(4), where impl = "\<lambda>f. 0"]
  from t [of "Finite 5" "Finite 6"] t [of "Finite 5" "Finite 5"] t [of "Finite 2.5" "Finite 1"]
  show ?thesis
    using up q by (simp add: sample_U_simps int64_of_float64_def trunc_def)
qed

subsection \<open>Order\<close>

text \<open>
  C9. Every listing keeps the store's order. Whenever ListEnqueued returns records,
  every entry of the list is well-formed and the records carry the ID, Type and Payload
  of the entries in the list's order, one record for each entry; it does return records
  when every entry is well-formed. ListInProgress, ListScheduled, ListRetry and ListDead
  return one record for each well-formed entry, in the order of the entries, with its ID,
  Type and Payload. For the three sorted sets the entries behind the records are in
  ascending order of score, and so are the Score fields of the records when every score
  has a defined conversion to int64.
\<close>

theorem listings_keep_order:
  assumes up: "transport_error r = None"
  shows
    "(\<forall>tasks. ListEnqueued U r = Inr tasks \<longrightarrow>
        (\<forall>s\<in>set (lists r DefaultQueue). \<not> isl (U s))
        \<and> length tasks = length (lists r DefaultQueue)
        \<and> map (\<lambda>t. (EnqueuedTask.ID t, EnqueuedTask.Type t, EnqueuedTask.Payload t)) tasks
            = map (\<lambda>m. (TaskMessage.ID m, TaskMessage.Type m, TaskMessage.Payload m))
                (decoded_strings U (lists r DefaultQueue)))
     \<and> ((\<forall>s\<in>set (lists r DefaultQueue). \<not> isl (U s)) \<longrightarrow> (\<exists>tasks. ListEnqueued U r = Inr tasks))
     \<and> (\<exists>tasks. ListInProgress U r = Inr tasks
          \<and> map (\<lambda>t. (InProgressTask.ID t, InProgressTask.Type t, InProgressTask.Payload t)) tasks
              = map (\<lambda>m. (TaskMessage.ID m, TaskMessage.Type m, TaskMessage.Payload m))
                  (decoded_strings U (lists r InProgressQueue)))
     \<and> (\<exists>tasks. ListScheduled U impl r = Inr tasks
          \<and> map (\<lambda>t. (ScheduledTask.ID t, ScheduledTask.Type t, ScheduledTask.Payload t)) tasks
              = map (\<lambda>(m, s). (TaskMessage.ID m, TaskMessage.Type m, TaskMessage.Payload m))
                  (decoded_entries U (zsets r ScheduledQueue))
          \<and> (zset_ok (zsets r ScheduledQueue) \<longrightarrow>
                sorted (map snd (decoded_entries U (zsets r ScheduledQueue))))
          \<and> (zset_ok (zsets r ScheduledQueue)
                \<and> (\<forall>z\<in>set (zsets r ScheduledQueue). fits_int64 (snd z)) \<longrightarrow>
                sorted (map ScheduledTask.Score tasks)))
     \<and> (\<exists>tasks. ListRetry U impl r = Inr tasks
          \<and> map (\<lambda>t. (RetryTask.ID t, RetryTask.Type t, RetryTask.Payload t)) tasks
              = map (\<lambda>(m, s). (TaskMessage.ID m, TaskMessage.Type m, TaskMessage.Payload m))
                  (decoded_entries U (zsets r RetryQueue))
          \<and> (zset_ok (zsets r RetryQueue) \<longrightarrow>
                sorted (map snd (decoded_entries U (zsets r RetryQueue))))
          \<and> (zset_ok (zsets r RetryQueue)
                \<and> (\<forall>z\<in>set (zsets r RetryQueue). fits_int64 (snd z)) \<longrightarrow>
                sorted (map RetryTask.Score tasks)))
     \<and> (\<exists>tasks. ListDead U impl r = Inr tasks
          \<and> map (\<lambda>t. (DeadTask.ID t, DeadTask.Type t, DeadTask.Payload t)) tasks
              = map (\<lambda>(m, s). (TaskMessage.ID m, TaskMessage.Type m, TaskMessage.Payload m))
                  (decoded_entries U (zsets r DeadQueue))
          \<and> (zset_ok (zsets r DeadQueue) \<longrightarrow>
                sorted (map snd (decoded_entries U (zsets r DeadQueue))))
          \<and> (zset_ok (zsets r DeadQueue)
                \<and> (\<forall>z\<in>set (zsets r DeadQueue). fits_int64 (snd z)) \<longrightarrow>
                sorted (map DeadTask.Score tasks)))"
proof (intro conjI)
  show "\<forall>tasks. ListEnqueued U r = Inr tasks \<longrightarrow>
        (\<forall>s\<in>set (lists r DefaultQueue). \<not> isl (U s))
        \<and> length tasks = length (lists r DefaultQueue)
        \<and> map (\<lambda>t. (EnqueuedTask.ID t, EnqueuedTask.Type t, EnqueuedTask.Payload t)) tasks
            = map (\<lambda>m. (TaskMessage.ID m, TaskMessage.Type m, TaskMessage.Payload m))
                (decoded_strings U (lists r DefaultQueue))"
  proof (intro allI impI)
    fix tasks assume "ListEnqueued U r = Inr tasks"
    from ListEnqueued_Inr [OF up this]
    show "(\<forall>s\<in>set (lists r DefaultQueue). \<not> isl (U s))
        \<and> length tasks = length (lists r DefaultQueue)
        \<and> map (\<lambda>t. (EnqueuedTask.ID t, EnqueuedTask.Type t, EnqueuedTask.Payload t)) tasks
            = map (\<lambda>m. (TaskMessage.ID m, TaskMessage.Type m, TaskMessage.Payload m))
                (decoded_strings U (lists r DefaultQueue))"
      by (simp add: decoded_strings_def enqueued_view_def comp_def)
  qed
  show "(\<forall>s\<in>set (lists r DefaultQueue). \<not> isl (U s)) \<longrightarrow> (\<exists>tasks. ListEnqueued U r = Inr tasks)"
    using up by (simp add: ListEnqueued_ok)
  show "\<exists>tasks. ListInProgress U r = Inr tasks
          \<and> map (\<lambda>t. (InProgressTask.ID t, InProgressTask.Type t, InProgressTask.Payload t)) tasks
              = map (\<lambda>m. (TaskMessage.ID m, TaskMessage.Type m, TaskMessage.Payload m))
                  (decoded_strings U (lists r InProgressQueue))"
    using up by (simp add: ListInProgress_eq inprogress_view_def comp_def)
  show "\<exists>tasks. ListScheduled U impl r = Inr tasks
          \<and> map (\<lambda>t. (ScheduledTask.ID t, ScheduledTask.Type t, ScheduledTask.Payload t)) tasks
              = map (\<lambda>(m, s). (TaskMessage.ID m, TaskMessage.Type m, TaskMessage.Payload m))
                  (decoded_entries U (zsets r ScheduledQueue))
          \<and> (zset_ok (zsets r ScheduledQueue) \<longrightarrow>
                sorted (map snd (decoded_entries U (zsets r ScheduledQueue))))
          \<and> (zset_ok (zsets r ScheduledQueue)
                \<and> (\<forall>z\<in>set (zsets r ScheduledQueue). fits_int64 (snd z)) \<longrightarrow>
                sorted (map ScheduledTask.Score tasks))"
    using up sorted_decoded_scores [of "zsets r ScheduledQueue" impl U]
    by (simp add: ListScheduled_eq scheduled_view_def comp_def case_prod_unfold zset_ok_def
          sorted_decoded_entries)
  show "\<exists>tasks. ListRetry U impl r = Inr tasks
          \<and> map (\<lambda>t. (RetryTask.ID t, RetryTask.Type t, RetryTask.Payload t)) tasks
              = map (\<lambda>(m, s). (TaskMessage.ID m, TaskMessage.Type m, TaskMessage.Payload m))
                  (decoded_entries U (zsets r RetryQueue))
          \<and> (zset_ok (zsets r RetryQueue) \<longrightarrow>
                sorted (map snd (decoded_entries U (zsets r RetryQueue))))
          \<and> (zset_ok (zsets r RetryQueue)
                \<and> (\<forall>z\<in>set (zsets r RetryQueue). fits_int64 (snd z)) \<longrightarrow>
                sorted (map RetryTask.Score tasks))"
    using up sorted_decoded_scores [of "zsets r RetryQueue" impl U]
    by (simp add: ListRetry_eq retry_view_def comp_def case_prod_unfold zset_ok_def
          sorted_decoded_entries)
  show "\<exists>tasks. ListDead U impl r = Inr tasks
          \<and> map (\<lambda>t. (DeadTask.ID t, DeadTask.Type t, DeadTask.Payload t)) tasks
              = map (\<lambda>(m, s). (TaskMessage.ID m, TaskMessage.Type m, TaskMessage.Payload m))
                  (decoded_entries U (zsets r DeadQueue))
          \<and> (zset_ok (zsets r DeadQueue) \<longrightarrow>
                sorted (map snd (decoded_entries U (zsets r DeadQueue))))
          \<and> (zset_ok (zsets r DeadQueue)
                \<and> (\<forall>z\<in>set (zsets r DeadQueue). fits_int64 (snd z)) \<longrightarrow>
                sorted (map DeadTask.Score tasks))"
    using up sorted_decoded_scores [of "zsets r DeadQueue" impl U]
    by (simp add: ListDead_eq dead_view_def comp_def case_prod_unfold zset_ok_def
          sorted_decoded_entries)
qed

theorem listings_keep_order_witness:
  "transport_error listing_store = None
   \<and> ListEnqueued sample_U listing_store
        = Inr [enqueued_view (message ''9m4e2mr0ui3e8a215n4g'' ''send_email''),
               enqueued_view (message ''9m4e2mr0ui3e8a215n50'' ''gen_thumbnail'')]
   \<and> ListInProgress sample_U listing_store
        = Inr [inprogress_view (message ''9m4e2mr0ui3e8a215n50'' ''gen_thumbnail''),
               inprogress_view (message ''9m4e2mr0ui3e8a215n4g'' ''send_email'')]
   \<and> zset_ok (zsets listing_store ScheduledQueue)
   \<and> fits_int64 (Finite 5) \<and> fits_int64 (Finite 6) \<and> fits_int64 (Finite 7.5)
   \<and> ListScheduled sample_U (\<lambda>f. 0) listing_store
        = Inr [scheduled_view (message ''9m4e2mr0ui3e8a215n50'' ''gen_thumbnail'') 5,
               scheduled_view (message ''9m4e2mr0ui3e8a215n4g'' ''send_email'') 7]
   \<and> zset_ok (zsets listing_store RetryQueue)
   \<and> ListRetry sample_U (\<lambda>f. 0) listing_store
        = Inr [retry_view (message ''9m4e2mr0ui3e8a215n4g'' ''send_email'') 1,
               retry_view (message ''9m4e2mr0ui3e8a215n5g'' ''send_email'') 1]
   \<and> zset_ok (zsets listing_store DeadQueue)
   \<and> ListDead sample_U (\<lambda>f. 0) listing_store
        = Inr [dead_view (message ''9m4e2mr0ui3e8a215n5g'' ''send_email'') 3]"
proof -
  have up: "transport_error listing_store = None"
    by (simp add: listing_store_def store_def)
  have q: "lists listing_store DefaultQueue = [text1, text2]"
    "lists listing_store InProgressQueue = [text2, garbage, text1]"
    "zsets listing_store ScheduledQueue
       = [(text2, Finite 5), (garbage, Finite 6), (text1, Finite 7.5)]"
    "zsets listing_store RetryQueue = [(text1, Finite 1), (text3, Finite 1)]"
    "zsets listing_store DeadQueue = [(garbage, Finite 2), (text3, Finite 3)]"
    by (simp_all add: listing_store_def store_def)
  have ok: "zset_ok [(text2, Finite 5), (garbage, Finite 6), (text1, Finite 7.5)]"
    "zset_ok [(text1, Finite 1), (text3, Finite 1)]"
    "zset_ok [(garbage, Finite 2), (text3, Finite 3)]"
    by (simp_all add: zset_ok_def text1_def text2_def text3_def garbage_def)
  have e: "ListEnqueued sample_U listing_store
        = Inr [enqueued_view (message ''9m4e2mr0ui3e8a215n4g'' ''send_email''),
               enqueued_view (message ''9m4e2mr0ui3e8a215n50'' ''gen_thumbnail'')]"
    by (simp add: ListEnqueued_def LRange_def LRANGE_all up q sample_U_simps enqueued_view_def)
  from listings_keep_order [OF up, of sample_U "\<lambda>f. 0"] show ?thesis
    using up ok e
    by (simp add: q sample_U_simps ListInProgress_eq ListScheduled_eq ListRetry_eq
          ListDead_eq decoded_strings_def decoded_entries_def fits_int64_def
          int64_of_float64_def trunc_def)
qed

subsection \<open>Scores and times\<close>

text \<open>
  C10. In the listings of the three sorted sets, the record of an entry with score s
  has Score int64(s), and ProcessAt (LastFailedAt for ListDead) the unix time of
  int64(s) seconds. For a finite score whose integer part fits 64 signed bits, int64(s)
  is s with its fraction dropped: the integer towards zero from s, less than 1 away.
\<close>

theorem score_views_truncate:
  assumes up: "transport_error r = None"
  shows
    "(\<exists>tasks. ListScheduled U impl r = Inr tasks
        \<and> map (\<lambda>t. (ScheduledTask.ProcessAt t, ScheduledTask.Score t)) tasks
            = map (\<lambda>(m, s). (Unix (int64_of_float64 impl s) 0, int64_of_float64 impl s))
                (decoded_entries U (zsets r ScheduledQueue)))
     \<and> (\<exists>tasks. ListRetry U impl r = Inr tasks
        \<and> map (\<lambda>t. (RetryTask.ProcessAt t, RetryTask.Score t)) tasks
            = map (\<lambda>(m, s). (Unix (int64_of_float64 impl s) 0, int64_of_float64 impl s))
                (decoded_entries U (zsets r RetryQueue)))
     \<and> (\<exists>tasks. ListDead U impl r = Inr tasks
        \<and> map (\<lambda>t. (DeadTask.LastFailedAt t, DeadTask.Score t)) tasks
            = map (\<lambda>(m, s). (Unix (int64_of_float64 impl s) 0, int64_of_float64 impl s))
                (decoded_entries U (zsets r DeadQueue)))
     \<and> (fits_int64 (Finite x) \<longrightarrow>
          int64_of_float64 impl (Finite x) = trunc x
          \<and> \<bar>x - real_of_int (trunc x)\<bar> < 1 \<and> \<bar>real_of_int (trunc x)\<bar> \<le> \<bar>x\<bar>)"
  using up trunc_bounds [of x]
  by (simp add: ListScheduled_eq ListRetry_eq ListDead_eq scheduled_view_def retry_view_def
        dead_view_def comp_def case_prod_unfold fits_int64_def int64_of_float64_def)

theorem score_views_truncate_witness:
  "transport_error fraction_store = None
   \<and> ListScheduled sample_U (\<lambda>f. 0) fraction_store
        = Inr [scheduled_view (message ''9m4e2mr0ui3e8a215n4g'' ''send_email'') 5]
   \<and> map (\<lambda>t. (ScheduledTask.ProcessAt t, ScheduledTask.Score t))
        [scheduled_view (message ''9m4e2mr0ui3e8a215n4g'' ''send_email'') 5] = [(Unix 5 0, 5)]
   \<and> ListRetry sample_U (\<lambda>f. 0) fraction_store
        = Inr [retry_view (message ''9m4e2mr0ui3e8a215n50'' ''gen_thumbnail'') (- 2)]
   \<and> ListDead sample_U (\<lambda>f. 0) fraction_store
        = Inr [dead_view (message ''9m4e2mr0ui3e8a215n5g'' ''send_email'') 7]
   \<and> fits_int64 (Finite 5.75) \<and> int64_of_float64 (\<lambda>f. 0) (Finite 5.75) = 5
   \<and> trunc 5.75 = 5"
proof -
  have up: "transport_error fraction_store = None"
    by (simp add: fraction_store_def store_def)
  have q: "zsets fraction_store ScheduledQueue = [(text1, Finite 5.75)]"
    "zsets fraction_store RetryQueue = [(text2, Finite (- 2.5))]"
    "zsets fraction_store DeadQueue = [(text3, Finite 7)]"
    by (simp_all add: fraction_store_def store_def)
  from score_views_truncate [OF up, of sample_U "\<lambda>f. 0" "5.75"] show ?thesis
    using up
    by (simp add: q sample_U_simps ListScheduled_eq ListRetry_eq ListDead_eq
          decoded_entries_def fits_int64_def int64_of_float64_def trunc_def
          scheduled_view_def)
qed

section \<open>Transitions\<close>

subsection \<open>The scan and the loops\<close>

lemma lua_ID_sample:
  "lua_ID sample_cj text1 = Inr (LString ''9m4e2mr0ui3e8a215n4g'')"
  "lua_ID sample_cj text2 = Inr (LString ''9m4e2mr0ui3e8a215n50'')"
  "lua_ID sample_cj text3 = Inr (LString ''9m4e2mr0ui3e8a215n5g'')"
  "lua_ID sample_cj garbage = Inl ''Expected value but found invalid token at character 1''"
  by (simp_all add: lua_ID_def sample_cj_def index_ID_def text1_def text2_def text3_def garbage_def)

lemma removeAndEnqueue_loop_scan:
  "removeAndEnqueue_loop cj k1 k2 a msgs r =
     (case scan cj a msgs of
        Raised err \<Rightarrow> (Inl err, r)
      | NoMatch \<Rightarrow> (Inr (Integer 0), r)
      | Match m \<Rightarrow> (Inr (Integer 1), LPUSH k2 m (ZREM k1 m r)))"
  by (induction msgs) (auto simp: lua_ID_def split: sum.splits)

lemma deleteTask_loop_scan:
  "deleteTask_loop cj k1 a msgs r =
     (case scan cj a msgs of
        Raised err \<Rightarrow> (Inl err, r)
      | NoMatch \<Rightarrow> (Inr (Integer 0), r)
      | Match m \<Rightarrow> (Inr (Integer 1), ZREM k1 m r))"
  by (induction msgs) (auto simp: lua_ID_def split: sum.splits)

lemma scan_NoMatch_iff:
  "scan cj a msgs = NoMatch \<longleftrightarrow> (\<forall>m\<in>set msgs. \<exists>v. lua_ID cj m = Inr v \<and> v \<noteq> LString a)"
  by (induction msgs) (auto split: sum.splits)

lemma scan_Match_first:
  "\<forall>m\<in>set pre. \<exists>v. lua_ID cj m = Inr v \<and> v \<noteq> LString a \<Longrightarrow>
   lua_ID cj msg = Inr (LString a) \<Longrightarrow> scan cj a (pre @ msg # post) = Match msg"
  by (induction pre) (auto split: sum.splits)

lemma scan_Raised_first:
  "\<forall>m\<in>set pre. lua_ID cj m \<noteq> Inr (LString a) \<Longrightarrow> cj b = Inl err \<Longrightarrow>
     \<exists>e. scan cj a (pre @ b # post) = Raised e"
  by (induction pre) (auto simp: lua_ID_def split: sum.splits)

lemma scan_no_entry:
  "\<forall>m\<in>set msgs. lua_ID cj m \<noteq> Inr (LString a) \<Longrightarrow> scan cj a msgs \<noteq> Match m'"
  by (induction msgs) (auto split: sum.splits)

lemma removeAndEnqueue_scan:
  "removeAndEnqueue cj k tid s r =
     (case transport_error r of
        Some e \<Rightarrow> (Inl (RedisError e), r)
      | None \<Rightarrow>
          (case scan cj tid (ZRANGEBYSCORE k s s r) of
             Raised err \<Rightarrow> (Inl (ScriptError err), r)
           | NoMatch \<Rightarrow> (Inr 0, r)
           | Match m \<Rightarrow> (Inr 1, LPUSH DefaultQueue m (ZREM k m r))))"
  by (simp add: removeAndEnqueue_def Run_def removeAndEnqueue_script_def
        removeAndEnqueue_loop_scan split: option.splits found.splits)

lemma deleteTask_scan:
  "deleteTask cj k tid s r =
     (case transport_error r of
        Some e \<Rightarrow> (Some (RedisError e), r)
      | None \<Rightarrow>
          (case scan cj tid (ZRANGEBYSCORE k s s r) of
             Raised err \<Rightarrow> (Some (ScriptError err), r)
           | NoMatch \<Rightarrow> (Some ErrTaskNotFound, r)
           | Match m \<Rightarrow> (None, ZREM k m r)))"
  by (simp add: deleteTask_def Run_def deleteTask_script_def deleteTask_loop_scan
        split: option.splits found.splits)

lemma requeue_op_scan:
  "requeue_op k cj tid score r =
     (case transport_error r of
        Some e \<Rightarrow> (Some (RedisError e), r)
      | None \<Rightarrow>
          (case scan cj tid (ZRANGEBYSCORE k (float64_of_int64 score) (float64_of_int64 score) r) of
             Raised err \<Rightarrow> (Some (ScriptError err), r)
           | NoMatch \<Rightarrow> (Some ErrTaskNotFound, r)
           | Match m \<Rightarrow> (None, LPUSH DefaultQueue m (ZREM k m r))))"
  by (cases k)
     (simp_all add: requeue_op_def EnqueueScheduledTask_def EnqueueRetryTask_def
        EnqueueDeadTask_def removeAndEnqueue_scan split: option.splits found.splits)

lemma delete_op_scan:
  "delete_op k cj tid score r =
     deleteTask cj k tid (float64_of_int64 score) r"
  by (cases k)
     (simp_all add: delete_op_def DeleteScheduledTask_def DeleteRetryTask_def DeleteDeadTask_def)

lemma ZREM_distinct:
  "distinct (map fst z) \<Longrightarrow> (m, s) \<in> set z \<Longrightarrow>
     filter (\<lambda>(m', s'). m' \<noteq> m) z = remove1 (m, s) z"
proof (induction z)
  case Nil
  then show ?case by simp
next
  case (Cons e z)
  show ?case
  proof (cases "e = (m, s)")
    case True
    with Cons.prems have "m \<notin> fst ` set z" by simp
    then have "filter (\<lambda>(m', s'). m' \<noteq> m) z = z"
      by (intro filter_True) (auto simp: image_iff)
    with True show ?thesis by simp
  next
    case False
    with Cons.prems have in_z: "(m, s) \<in> set z" by simp
    with Cons.prems have "fst e \<noteq> m" by (auto simp: image_iff)
    with False Cons.IH Cons.prems in_z show ?thesis
      by (cases e) simp
  qed
qed

lemma removeAndEnqueueAll_loop_lists:
  "lists (removeAndEnqueueAll_loop k1 k2 msgs r) =
     (lists r)(k2 := rev msgs @ lists r k2)"
  by (induction msgs arbitrary: r) (auto simp: LPUSH_def ZREM_def fun_eq_iff)

lemma removeAndEnqueueAll_loop_zsets:
  "zsets (removeAndEnqueueAll_loop k1 k2 msgs r) =
     (zsets r)(k1 := filter (\<lambda>(m, s). m \<notin> set msgs) (zsets r k1))"
  by (induction msgs arbitrary: r) (auto simp: LPUSH_def ZREM_def fun_eq_iff intro: filter_cong)

lemma removeAndEnqueueAll_loop_rest:
  "info_text (removeAndEnqueueAll_loop k1 k2 msgs r) = info_text r
   \<and> transport_error (removeAndEnqueueAll_loop k1 k2 msgs r) = transport_error r
   \<and> clock (removeAndEnqueueAll_loop k1 k2 msgs r) = clock r"
  by (induction msgs arbitrary: r) (auto simp: LPUSH_def ZREM_def)

lemma member_at_score:
  "m \<in> set (ZRANGEBYSCORE k score score r) \<Longrightarrow> (m, score) \<in> set (zsets r k)"
  by (auto simp: ZRANGEBYSCORE_at)

lemma store_update:
  "(store p a s t d)\<lparr>lists := (lists (store p a s t d))(DefaultQueue := p'),
                      zsets := (zsets (store p a s t d))(DeadQueue := d')\<rparr> = store p' a s t d'"
  by (auto simp: store_def fun_eq_iff split: lkey.splits zkey.splits)

lemma requeue_all_op_eq: "requeue_all_op k r = removeAndEnqueueAll k r"
  by (cases k)
     (simp_all add: requeue_all_op_def EnqueueAllScheduledTasks_def EnqueueAllRetryTasks_def
        EnqueueAllDeadTasks_def)

lemma removeAndEnqueueAll_loop_all:
  "removeAndEnqueueAll_loop k DefaultQueue (map fst (zsets r k)) r
     = r\<lparr>lists := (lists r)(DefaultQueue := rev (map fst (zsets r k)) @ lists r DefaultQueue),
         zsets := (zsets r)(k := [])\<rparr>"
proof (rule RDB.equality)
  have "filter (\<lambda>(m, s). m \<notin> set (map fst (zsets r k))) (zsets r k) = []"
    by (auto simp: filter_empty_conv image_iff)
  then show "zsets (removeAndEnqueueAll_loop k DefaultQueue (map fst (zsets r k)) r)
     = zsets (r\<lparr>lists := (lists r)(DefaultQueue := rev (map fst (zsets r k)) @ lists r DefaultQueue),
         zsets := (zsets r)(k := [])\<rparr>)"
    by (simp add: removeAndEnqueueAll_loop_zsets)
qed (simp_all add: removeAndEnqueueAll_loop_lists removeAndEnqueueAll_loop_rest)

lemma float64_of_int64_5: "float64_of_int64 5 = Finite 5"
  by (simp add: float64_of_int64_exact)

lemma requeue_store_simps:
  "transport_error requeue_store = None"
  "zsets requeue_store DeadQueue
      = [(garbage, Finite 4), (text1, Finite 5), (text2, Finite 5), (text3, Finite 5)]"
  "lists requeue_store DefaultQueue = []"
  "ZRANGEBYSCORE DeadQueue (Finite 5) (Finite 5) requeue_store = [text1, text2, text3]"
  by (simp_all add: ZRANGEBYSCORE_at) (simp_all add: requeue_store_def store_def)

lemma malformed_store_simps:
  "transport_error malformed_store = None"
  "ZRANGEBYSCORE DeadQueue (Finite 5) (Finite 5) malformed_store = [garbage, text1]"
  by (simp_all add: ZRANGEBYSCORE_at) (simp_all add: malformed_store_def store_def)

lemma requeue_store_moved:
  "LPUSH DefaultQueue v (store p a s t d) = store (v # p) a s t d"
  "ZREM DeadQueue text2 requeue_store
     = store [] [] [] [] [(garbage, Finite 4), (text1, Finite 5), (text3, Finite 5)]"
  by (auto simp: LPUSH_def ZREM_def requeue_store_def store_def fun_eq_iff
        text1_def text2_def text3_def garbage_def split: lkey.splits zkey.splits)

text \<open>Deleting a whole set leaves it empty; on an empty set nothing changes.\<close>

lemma Del_empties:
  "transport_error r = None \<Longrightarrow> Del k r = (None, r\<lparr>zsets := (zsets r)(k := [])\<rparr>)"
  by (simp add: Del_def)

lemma DeleteAllDeadTasks_empty:
  "transport_error r = None \<Longrightarrow> zsets r DeadQueue = [] \<Longrightarrow> DeleteAllDeadTasks r = (None, r)"
proof -
  assume up: "transport_error r = None" and e: "zsets r DeadQueue = []"
  from e have "(zsets r)(DeadQueue := []) = zsets r" by (auto simp: fun_eq_iff)
  with up show ?thesis by (simp add: DeleteAllDeadTasks_def Del_def)
qed

subsection \<open>Moving one entry\<close>

text \<open>
  C1, as amended. With the store answering, removeAndEnqueue scans the entries of the
  source set whose score equals the given score, in the store's order. When the first
  entry whose decoded ID equals the given id is reached, every entry before it having
  decoded without raising, it removes that entry and no other from the source set and
  pushes the same bytes onto the head of Pending, returning 1. When every entry at that
  score decodes and none has the ID, it returns 0 and changes nothing.
\<close>

theorem removeAndEnqueue_first_match:
  assumes up: "transport_error r = None" and ok: "zset_ok (zsets r k)"
  shows
    "ZRANGEBYSCORE k score score r = map fst (filter (\<lambda>(m, s). s = score) (zsets r k))
     \<and> (\<forall>pre msg post.
           ZRANGEBYSCORE k score score r = pre @ msg # post
           \<and> (\<forall>m\<in>set pre. \<exists>v. lua_ID cj m = Inr v \<and> v \<noteq> LString tid)
           \<and> lua_ID cj msg = Inr (LString tid)
         \<longrightarrow> removeAndEnqueue cj k tid score r
               = (Inr 1, r\<lparr>lists := (lists r)(DefaultQueue := msg # lists r DefaultQueue),
                            zsets := (zsets r)(k := remove1 (msg, score) (zsets r k))\<rparr>))
     \<and> ((\<forall>m\<in>set (ZRANGEBYSCORE k score score r). \<exists>v. lua_ID cj m = Inr v \<and> v \<noteq> LString tid)
         \<longrightarrow> removeAndEnqueue cj k tid score r = (Inr 0, r))"
proof (intro conjI allI impI)
  show "ZRANGEBYSCORE k score score r = map fst (filter (\<lambda>(m, s). s = score) (zsets r k))"
    by (rule ZRANGEBYSCORE_at)
next
  fix pre msg post
  assume a: "ZRANGEBYSCORE k score score r = pre @ msg # post
           \<and> (\<forall>m\<in>set pre. \<exists>v. lua_ID cj m = Inr v \<and> v \<noteq> LString tid)
           \<and> lua_ID cj msg = Inr (LString tid)"
  then have sc: "scan cj tid (ZRANGEBYSCORE k score score r) = Match msg"
    by (simp add: scan_Match_first)
  from a have "msg \<in> set (ZRANGEBYSCORE k score score r)" by simp
  then have "(msg, score) \<in> set (zsets r k)" by (rule member_at_score)
  with ok have rm: "filter (\<lambda>(m', s'). m' \<noteq> msg) (zsets r k) = remove1 (msg, score) (zsets r k)"
    by (simp add: zset_ok_def ZREM_distinct)
  from up sc rm show "removeAndEnqueue cj k tid score r
               = (Inr 1, r\<lparr>lists := (lists r)(DefaultQueue := msg # lists r DefaultQueue),
                            zsets := (zsets r)(k := remove1 (msg, score) (zsets r k))\<rparr>)"
    by (simp add: removeAndEnqueue_scan LPUSH_def ZREM_def)
next
  assume "\<forall>m\<in>set (ZRANGEBYSCORE k score score r). \<exists>v. lua_ID cj m = Inr v \<and> v \<noteq> LString tid"
  then have "scan cj tid (ZRANGEBYSCORE k score score r) = NoMatch"
    by (simp add: scan_NoMatch_iff)
  with up show "removeAndEnqueue cj k tid score r = (Inr 0, r)"
    by (simp add: removeAndEnqueue_scan)
qed

theorem removeAndEnqueue_first_match_witness:
  "transport_error requeue_store = None
   \<and> zset_ok (zsets requeue_store DeadQueue)
   \<and> ZRANGEBYSCORE DeadQueue (Finite 5) (Finite 5) requeue_store = [text1] @ text2 # [text3]
   \<and> lua_ID sample_cj text1 = Inr (LString ''9m4e2mr0ui3e8a215n4g'')
   \<and> lua_ID sample_cj text2 = Inr (LString ''9m4e2mr0ui3e8a215n50'')
   \<and> lua_ID sample_cj text3 = Inr (LString ''9m4e2mr0ui3e8a215n5g'')
   \<and> removeAndEnqueue sample_cj DeadQueue ''9m4e2mr0ui3e8a215n50'' (Finite 5) requeue_store
       = (Inr 1, store [text2] [] [] []
                   [(garbage, Finite 4), (text1, Finite 5), (text3, Finite 5)])
   \<and> removeAndEnqueue sample_cj DeadQueue ''9m4e2mr0ui3e8a215n6g'' (Finite 5) requeue_store
       = (Inr 0, requeue_store)"
proof -
  have up: "transport_error requeue_store = None"
    by (simp add: requeue_store_def store_def)
  have z: "zsets requeue_store DeadQueue
      = [(garbage, Finite 4), (text1, Finite 5), (text2, Finite 5), (text3, Finite 5)]"
    "lists requeue_store DefaultQueue = []"
    by (simp_all add: requeue_store_def store_def)
  have ok: "zset_ok (zsets requeue_store DeadQueue)"
    by (simp add: z zset_ok_def text1_def text2_def text3_def garbage_def)
  have rng: "ZRANGEBYSCORE DeadQueue (Finite 5) (Finite 5) requeue_store = [text1, text2, text3]"
    by (simp add: ZRANGEBYSCORE_at z)
  have rm: "remove1 (text2, Finite 5) (zsets requeue_store DeadQueue)
      = [(garbage, Finite 4), (text1, Finite 5), (text3, Finite 5)]"
    by (simp add: z text1_def text2_def text3_def garbage_def)
  note t = removeAndEnqueue_first_match [OF up ok, of "Finite 5" sample_cj]
  from t [of "''9m4e2mr0ui3e8a215n50''"] t [of "''9m4e2mr0ui3e8a215n6g''"]
  have "removeAndEnqueue sample_cj DeadQueue ''9m4e2mr0ui3e8a215n50'' (Finite 5) requeue_store
       = (Inr 1, requeue_store\<lparr>lists := (lists requeue_store)(DefaultQueue := [text2]),
            zsets := (zsets requeue_store)(DeadQueue :=
               [(garbage, Finite 4), (text1, Finite 5), (text3, Finite 5)])\<rparr>)
       \<and> removeAndEnqueue sample_cj DeadQueue ''9m4e2mr0ui3e8a215n6g'' (Finite 5) requeue_store
       = (Inr 0, requeue_store)"
    apply (simp only: rng)
    apply (elim conjE)
    apply (drule spec [of _ "[text1]"], drule spec [of _ text2], drule spec [of _ "[text3]"])
    apply (simp add: lua_ID_sample rm z)
    done
  then show ?thesis
    using up ok rng
    by (simp add: lua_ID_sample) (simp add: requeue_store_def store_update)
qed

text \<open>
  C1 as stated fails: the first entry at score 5 whose decoded ID is the given one is
  the second of two, and the first one is no JSON. The script raises there, so the call
  returns an error, not 1, and moves nothing.
\<close>

theorem removeAndEnqueue_malformed_before_match:
  "ZRANGEBYSCORE DeadQueue (Finite 5) (Finite 5) malformed_store = [garbage, text1]
   \<and> lua_ID sample_cj garbage = Inl ''Expected value but found invalid token at character 1''
   \<and> lua_ID sample_cj text1 = Inr (LString ''9m4e2mr0ui3e8a215n4g'')
   \<and> removeAndEnqueue sample_cj DeadQueue ''9m4e2mr0ui3e8a215n4g'' (Finite 5) malformed_store
       = (Inl (ScriptError ''Expected value but found invalid token at character 1''),
          malformed_store)
   \<and> fst (removeAndEnqueue sample_cj DeadQueue ''9m4e2mr0ui3e8a215n4g'' (Finite 5)
             malformed_store) \<noteq> Inr 1
   \<and> zsets (snd (removeAndEnqueue sample_cj DeadQueue ''9m4e2mr0ui3e8a215n4g'' (Finite 5)
                    malformed_store)) DeadQueue
       = [(garbage, Finite 5), (text1, Finite 5)]
   \<and> lists (snd (removeAndEnqueue sample_cj DeadQueue ''9m4e2mr0ui3e8a215n4g'' (Finite 5)
                    malformed_store)) DefaultQueue = []"
proof -
  have up: "transport_error malformed_store = None"
    by (simp add: malformed_store_def store_def)
  have rng: "ZRANGEBYSCORE DeadQueue (Finite 5) (Finite 5) malformed_store = [garbage, text1]"
    by (simp add: ZRANGEBYSCORE_at malformed_store_def store_def)
  have q: "zsets malformed_store DeadQueue = [(garbage, Finite 5), (text1, Finite 5)]"
    "lists malformed_store DefaultQueue = []"
    by (simp_all add: malformed_store_def store_def)
  show ?thesis
    by (simp add: removeAndEnqueue_scan up rng q lua_ID_sample)
qed

subsection \<open>Moving all entries\<close>

text \<open>
  C4. With the store answering, the bulk requeue of Scheduled, Retry or Dead returns the
  number n of entries of the source set, leaves the source set empty and has pushed the
  bytes of each of the n entries onto Pending (each on the head, in the set's order);
  nothing else changes.
\<close>

theorem removeAndEnqueueAll_drains:
  assumes up: "transport_error r = None"
  shows
    "removeAndEnqueueAll k r
       = (Inr (int (length (zsets r k))),
          r\<lparr>lists := (lists r)(DefaultQueue := rev (map fst (zsets r k)) @ lists r DefaultQueue),
            zsets := (zsets r)(k := [])\<rparr>)
     \<and> requeue_all_op k r = removeAndEnqueueAll k r"
  using up
  by (simp add: requeue_all_op_eq removeAndEnqueueAll_def Run_def
        removeAndEnqueueAll_script_def ZRANGE_all removeAndEnqueueAll_loop_all Let_def)

theorem removeAndEnqueueAll_drains_witness:
  "transport_error requeue_store = None
   \<and> zsets requeue_store DeadQueue
       = [(garbage, Finite 4), (text1, Finite 5), (text2, Finite 5), (text3, Finite 5)]
   \<and> EnqueueAllDeadTasks requeue_store
       = (Inr 4, store [text3, text2, text1, garbage] [] [] [] [])"
proof -
  have up: "transport_error requeue_store = None"
    by (simp add: requeue_store_def store_def)
  have z: "zsets requeue_store DeadQueue
      = [(garbage, Finite 4), (text1, Finite 5), (text2, Finite 5), (text3, Finite 5)]"
    "lists requeue_store DefaultQueue = []"
    by (simp_all add: requeue_store_def store_def)
  from removeAndEnqueueAll_drains [OF up, of DeadQueue]
  have "EnqueueAllDeadTasks requeue_store
       = (Inr 4, requeue_store\<lparr>lists := (lists requeue_store)(DefaultQueue :=
                      [text3, text2, text1, garbage]),
                    zsets := (zsets requeue_store)(DeadQueue := [])\<rparr>)"
    by (simp add: z requeue_all_op_def)
  then show ?thesis
    using up z(1) by (simp add: requeue_store_def store_update)
qed

subsection \<open>Not found\<close>


lemma rounding_store_simps:
  "transport_error rounding_store = None"
  "zsets rounding_store DeadQueue = [(text1, Finite 9007199254740992)]"
  "lists rounding_store DefaultQueue = []"
  "ZRANGEBYSCORE DeadQueue (Finite 9007199254740992) (Finite 9007199254740992) rounding_store
     = [text1]"
  by (simp_all add: ZRANGEBYSCORE_at) (simp_all add: rounding_store_def store_def)

lemma rounding_store_moved:
  "ZREM DeadQueue text1 rounding_store = store [] [] [] [] []"
  by (auto simp: ZREM_def rounding_store_def store_def fun_eq_iff split: zkey.splits)




text \<open>
  C5, as amended. When no entry of the target set is stored at float64(score), the
  score the call scans, with bytes that decode to the id, each single-record requeue
  and delete operation leaves the store as it is, and returns an error. For a score
  below 2^53 in absolute value float64(score) is the score itself, so this holds
  whenever no entry stored at that score decodes to the id.
\<close>

theorem not_found_changes_nothing:
  "((\<forall>(m, s)\<in>set (zsets r k). s = float64_of_int64 score \<longrightarrow> lua_ID cj m \<noteq> Inr (LString tid))
      \<longrightarrow> snd (requeue_op k cj tid score r) = r \<and> snd (delete_op k cj tid score r) = r
          \<and> fst (requeue_op k cj tid score r) \<noteq> None
          \<and> fst (delete_op k cj tid score r) \<noteq> None)
   \<and> (\<bar>score\<bar> < 2 ^ 53
        \<and> (\<forall>(m, s)\<in>set (zsets r k). s = Finite (of_int score) \<longrightarrow> lua_ID cj m \<noteq> Inr (LString tid))
      \<longrightarrow> snd (requeue_op k cj tid score r) = r \<and> snd (delete_op k cj tid score r) = r
          \<and> fst (requeue_op k cj tid score r) \<noteq> None
          \<and> fst (delete_op k cj tid score r) \<noteq> None)"
proof -
  have gen: "snd (requeue_op k cj tid score r) = r \<and> snd (delete_op k cj tid score r) = r
          \<and> fst (requeue_op k cj tid score r) \<noteq> None
          \<and> fst (delete_op k cj tid score r) \<noteq> None"
    if a: "\<forall>(m, s)\<in>set (zsets r k). s = float64_of_int64 score
             \<longrightarrow> lua_ID cj m \<noteq> Inr (LString tid)"
  proof -
    from a have
      "\<forall>m\<in>set (ZRANGEBYSCORE k (float64_of_int64 score) (float64_of_int64 score) r).
          lua_ID cj m \<noteq> Inr (LString tid)"
      by (auto simp: ZRANGEBYSCORE_at)
    then have "\<And>m. scan cj tid
        (ZRANGEBYSCORE k (float64_of_int64 score) (float64_of_int64 score) r) \<noteq> Match m"
      by (rule scan_no_entry)
    then show ?thesis
      by (auto simp: requeue_op_scan delete_op_scan deleteTask_scan
            split: option.splits found.splits)
  qed
  have p1: "(\<forall>(m, s)\<in>set (zsets r k). s = float64_of_int64 score
               \<longrightarrow> lua_ID cj m \<noteq> Inr (LString tid))
      \<longrightarrow> snd (requeue_op k cj tid score r) = r \<and> snd (delete_op k cj tid score r) = r
          \<and> fst (requeue_op k cj tid score r) \<noteq> None
          \<and> fst (delete_op k cj tid score r) \<noteq> None"
    using gen by (rule impI)
  have p2: "\<bar>score\<bar> < 2 ^ 53
        \<and> (\<forall>(m, s)\<in>set (zsets r k). s = Finite (of_int score)
              \<longrightarrow> lua_ID cj m \<noteq> Inr (LString tid))
      \<longrightarrow> snd (requeue_op k cj tid score r) = r \<and> snd (delete_op k cj tid score r) = r
          \<and> fst (requeue_op k cj tid score r) \<noteq> None
          \<and> fst (delete_op k cj tid score r) \<noteq> None"
  proof (rule impI)
    assume "\<bar>score\<bar> < 2 ^ 53
        \<and> (\<forall>(m, s)\<in>set (zsets r k). s = Finite (of_int score)
              \<longrightarrow> lua_ID cj m \<noteq> Inr (LString tid))"
    then have "\<forall>(m, s)\<in>set (zsets r k). s = float64_of_int64 score
             \<longrightarrow> lua_ID cj m \<noteq> Inr (LString tid)"
      by (simp add: float64_of_int64_exact)
    then show "snd (requeue_op k cj tid score r) = r \<and> snd (delete_op k cj tid score r) = r
          \<and> fst (requeue_op k cj tid score r) \<noteq> None
          \<and> fst (delete_op k cj tid score r) \<noteq> None"
      by (rule gen)
  qed
  from p1 p2 show ?thesis by (rule conjI)
qed

theorem not_found_changes_nothing_witness:
  "zsets requeue_store DeadQueue
      = [(garbage, Finite 4), (text1, Finite 5), (text2, Finite 5), (text3, Finite 5)]
   \<and> float64_of_int64 5 = Finite 5 \<and> float64_of_int64 6 = Finite 6
   \<and> \<bar>5 :: int\<bar> < 2 ^ 53 \<and> \<bar>6 :: int\<bar> < 2 ^ 53
   \<and> lua_ID sample_cj text1 = Inr (LString ''9m4e2mr0ui3e8a215n4g'')
   \<and> lua_ID sample_cj text2 = Inr (LString ''9m4e2mr0ui3e8a215n50'')
   \<and> lua_ID sample_cj text3 = Inr (LString ''9m4e2mr0ui3e8a215n5g'')
   \<and> snd (EnqueueDeadTask sample_cj ''9m4e2mr0ui3e8a215n6g'' 5 requeue_store) = requeue_store
   \<and> snd (DeleteDeadTask sample_cj ''9m4e2mr0ui3e8a215n6g'' 5 requeue_store) = requeue_store
   \<and> snd (EnqueueDeadTask sample_cj ''9m4e2mr0ui3e8a215n50'' 6 requeue_store) = requeue_store
   \<and> snd (DeleteDeadTask sample_cj ''9m4e2mr0ui3e8a215n50'' 6 requeue_store) = requeue_store"
proof -
  have h1: "\<forall>(m, s)\<in>set (zsets requeue_store DeadQueue).
      s = float64_of_int64 5 \<longrightarrow> lua_ID sample_cj m \<noteq> Inr (LString ''9m4e2mr0ui3e8a215n6g'')"
    by (simp add: requeue_store_simps lua_ID_sample float64_of_int64_exact)
  have h2: "\<bar>6 :: int\<bar> < 2 ^ 53
      \<and> (\<forall>(m, s)\<in>set (zsets requeue_store DeadQueue).
      s = Finite (of_int 6) \<longrightarrow> lua_ID sample_cj m \<noteq> Inr (LString ''9m4e2mr0ui3e8a215n50''))"
    by (simp add: requeue_store_simps lua_ID_sample)
  note t = not_found_changes_nothing [of requeue_store DeadQueue _ sample_cj]
  have c1: "snd (requeue_op DeadQueue sample_cj ''9m4e2mr0ui3e8a215n6g'' 5 requeue_store)
        = requeue_store
      \<and> snd (delete_op DeadQueue sample_cj ''9m4e2mr0ui3e8a215n6g'' 5 requeue_store)
        = requeue_store"
    using t [of 5 "''9m4e2mr0ui3e8a215n6g''"] h1 by blast
  have c2: "snd (requeue_op DeadQueue sample_cj ''9m4e2mr0ui3e8a215n50'' 6 requeue_store)
        = requeue_store
      \<and> snd (delete_op DeadQueue sample_cj ''9m4e2mr0ui3e8a215n50'' 6 requeue_store)
        = requeue_store"
    using t [of 6 "''9m4e2mr0ui3e8a215n50''"] h2 by blast
  from c1 c2 show ?thesis
    by (simp add: requeue_store_simps lua_ID_sample float64_of_int64_exact requeue_op_def
          delete_op_def)
qed

text \<open>
  C5 as stated fails: the only entry of Dead is stored at 2^53, and is listed with
  that score, so no entry has the score 2^53 + 1. float64 rounds 2^53 + 1 to 2^53, so a
  requeue or delete with the entry's id and the score 2^53 + 1 finds the entry and
  moves or removes it.
\<close>

theorem rounded_score_finds_entry:
  "zsets rounding_store DeadQueue = [(text1, Finite 9007199254740992)]
   \<and> Finite 9007199254740992 \<noteq> Finite 9007199254740993
   \<and> ListDead sample_U (\<lambda>f. 0) rounding_store
       = Inr [dead_view (message ''9m4e2mr0ui3e8a215n4g'' ''send_email'') 9007199254740992]
   \<and> float64_of_int64 9007199254740993 = Finite 9007199254740992
   \<and> EnqueueDeadTask sample_cj ''9m4e2mr0ui3e8a215n4g'' 9007199254740993 rounding_store
       = (None, store [text1] [] [] [] [])
   \<and> DeleteDeadTask sample_cj ''9m4e2mr0ui3e8a215n4g'' 9007199254740993 rounding_store
       = (None, store [] [] [] [] [])
   \<and> snd (EnqueueDeadTask sample_cj ''9m4e2mr0ui3e8a215n4g'' 9007199254740993 rounding_store)
       \<noteq> rounding_store
   \<and> snd (DeleteDeadTask sample_cj ''9m4e2mr0ui3e8a215n4g'' 9007199254740993 rounding_store)
       \<noteq> rounding_store"
proof -
  have ne: "store [text1] [] [] [] [] \<noteq> rounding_store" "store [] [] [] [] [] \<noteq> rounding_store"
  proof -
    have "zsets (store [text1] [] [] [] []) DeadQueue \<noteq> zsets rounding_store DeadQueue"
      by (simp add: rounding_store_simps) (simp add: store_def)
    then show "store [text1] [] [] [] [] \<noteq> rounding_store" by auto
    have "zsets (store [] [] [] [] []) DeadQueue \<noteq> zsets rounding_store DeadQueue"
      by (simp add: rounding_store_simps) (simp add: store_def)
    then show "store [] [] [] [] [] \<noteq> rounding_store" by auto
  qed
  have l: "ListDead sample_U (\<lambda>f. 0) rounding_store
       = Inr [dead_view (message ''9m4e2mr0ui3e8a215n4g'' ''send_email'') 9007199254740992]"
    by (simp add: ListDead_eq rounding_store_simps decoded_entries_def sample_U_simps
          int64_of_float64_def trunc_def)
  have e: "EnqueueDeadTask sample_cj ''9m4e2mr0ui3e8a215n4g'' 9007199254740993 rounding_store
       = (None, store [text1] [] [] [] [])"
    using requeue_op_scan
      [of DeadQueue sample_cj "''9m4e2mr0ui3e8a215n4g''" 9007199254740993 rounding_store]
    by (simp add: requeue_op_def float64_of_int64_rounds rounding_store_simps lua_ID_sample
          rounding_store_moved requeue_store_moved)
  have d: "DeleteDeadTask sample_cj ''9m4e2mr0ui3e8a215n4g'' 9007199254740993 rounding_store
       = (None, store [] [] [] [] [])"
    by (simp add: DeleteDeadTask_def deleteTask_scan float64_of_int64_rounds
          rounding_store_simps lua_ID_sample rounding_store_moved)
  from l e d ne show ?thesis
    by (simp add: rounding_store_simps float64_of_int64_rounds)
qed

subsection \<open>Malformed entries\<close>

text \<open>
  C8. When the scan of removeAndEnqueue or deleteTask comes to an entry at the score
  that cjson.decode rejects, no entry before it having the ID, the call fails with
  an error and the store is as before: with the store answering, the error is that of
  the script, raised at the first entry that does not decode. The same holds for the
  public requeue and delete operations.
\<close>

theorem malformed_entry_aborts:
  assumes rng: "ZRANGEBYSCORE k score score r = pre @ b # post"
    and bad: "cj b = Inl err"
    and pre: "\<forall>m\<in>set pre. lua_ID cj m \<noteq> Inr (LString tid)"
  shows
    "\<exists>e. removeAndEnqueue cj k tid score r
            = (Inl (case transport_error r of None \<Rightarrow> ScriptError e | Some t \<Rightarrow> RedisError t), r)
        \<and> deleteTask cj k tid score r
            = (Some (case transport_error r of None \<Rightarrow> ScriptError e | Some t \<Rightarrow> RedisError t), r)
        \<and> (\<forall>n. score = float64_of_int64 n \<longrightarrow>
              requeue_op k cj tid n r
                = (Some (case transport_error r of None \<Rightarrow> ScriptError e | Some t \<Rightarrow> RedisError t), r)
              \<and> delete_op k cj tid n r
                = (Some (case transport_error r of None \<Rightarrow> ScriptError e | Some t \<Rightarrow> RedisError t), r))
        \<and> ((\<forall>m\<in>set pre. \<exists>v. lua_ID cj m = Inr v) \<longrightarrow> e = err)"
proof -
  from scan_Raised_first [OF pre bad] obtain e where
    e: "scan cj tid (pre @ b # post) = Raised e" by blast
  have "(\<forall>m\<in>set pre. \<exists>v. lua_ID cj m = Inr v) \<longrightarrow> e = err"
  proof
    assume "\<forall>m\<in>set pre. \<exists>v. lua_ID cj m = Inr v"
    with pre have "\<forall>m\<in>set pre. \<exists>v. lua_ID cj m = Inr v \<and> v \<noteq> LString tid" by auto
    then have "scan cj tid (pre @ b # post) = Raised err"
      using bad by (induction pre) (auto simp: lua_ID_def split: sum.splits)
    with e show "e = err" by simp
  qed
  with e rng show ?thesis
    by (intro exI [of _ e])
       (auto simp: removeAndEnqueue_scan deleteTask_scan requeue_op_scan delete_op_scan
          split: option.splits)
qed

theorem malformed_entry_aborts_witness:
  "ZRANGEBYSCORE DeadQueue (Finite 5) (Finite 5) malformed_store = [] @ garbage # [text1]
   \<and> sample_cj garbage = Inl ''Expected value but found invalid token at character 1''
   \<and> transport_error malformed_store = None
   \<and> float64_of_int64 5 = Finite 5
   \<and> removeAndEnqueue sample_cj DeadQueue ''9m4e2mr0ui3e8a215n4g'' (Finite 5) malformed_store
       = (Inl (ScriptError ''Expected value but found invalid token at character 1''),
          malformed_store)
   \<and> deleteTask sample_cj DeadQueue ''9m4e2mr0ui3e8a215n4g'' (Finite 5) malformed_store
       = (Some (ScriptError ''Expected value but found invalid token at character 1''),
          malformed_store)
   \<and> EnqueueDeadTask sample_cj ''9m4e2mr0ui3e8a215n4g'' 5 malformed_store
       = (Some (ScriptError ''Expected value but found invalid token at character 1''),
          malformed_store)
   \<and> DeleteDeadTask sample_cj ''9m4e2mr0ui3e8a215n4g'' 5 malformed_store
       = (Some (ScriptError ''Expected value but found invalid token at character 1''),
          malformed_store)"
proof -
  have rng: "ZRANGEBYSCORE DeadQueue (Finite 5) (Finite 5) malformed_store
      = [] @ garbage # [text1]"
    by (simp add: malformed_store_simps)
  have bad: "sample_cj garbage = Inl ''Expected value but found invalid token at character 1''"
    by (simp add: sample_cj_def text1_def text2_def text3_def garbage_def)
  have pre: "\<forall>m\<in>set []. lua_ID sample_cj m \<noteq> Inr (LString ''9m4e2mr0ui3e8a215n4g'')"
    by simp
  from malformed_entry_aborts [OF rng bad pre]
  obtain e where e:
    "removeAndEnqueue sample_cj DeadQueue ''9m4e2mr0ui3e8a215n4g'' (Finite 5) malformed_store
       = (Inl (ScriptError e), malformed_store)"
    "deleteTask sample_cj DeadQueue ''9m4e2mr0ui3e8a215n4g'' (Finite 5) malformed_store
       = (Some (ScriptError e), malformed_store)"
    "\<forall>n. Finite 5 = float64_of_int64 n \<longrightarrow>
       requeue_op DeadQueue sample_cj ''9m4e2mr0ui3e8a215n4g'' n malformed_store
         = (Some (ScriptError e), malformed_store)
       \<and> delete_op DeadQueue sample_cj ''9m4e2mr0ui3e8a215n4g'' n malformed_store
         = (Some (ScriptError e), malformed_store)"
    "e = ''Expected value but found invalid token at character 1''"
    by (auto simp: malformed_store_simps)
  from e(3) have "requeue_op DeadQueue sample_cj ''9m4e2mr0ui3e8a215n4g'' 5 malformed_store
         = (Some (ScriptError e), malformed_store)
       \<and> delete_op DeadQueue sample_cj ''9m4e2mr0ui3e8a215n4g'' 5 malformed_store
         = (Some (ScriptError e), malformed_store)"
    by (simp add: float64_of_int64_5)
  with e(1,2,4) rng bad show ?thesis
    by (simp add: malformed_store_simps(1) float64_of_int64_5 requeue_op_def delete_op_def)
qed

section \<open>Info\<close>












end
